theory Spec2Isabelle
  imports Complex_Main "HOL-Library.List_Lexorder" "HOL-Library.Char_ord"
begin

section \<open>JavaScript numbers and values\<close>

text \<open>
  A JavaScript number is a finite value, one of the two infinities, or NaN. Finite values
  are modelled as exact rationals: the rounding of IEEE doubles and the sign of zero are
  not modelled (every constant of the program, and every whole number of minutes or
  percent, is exact in a double).
\<close>

datatype jsnum = Fin rat | PInf | NInf | NaN

text \<open>
  A value read from a settings object: either a value whose \<^verbatim>\<open>typeof\<close> is
  \<^verbatim>\<open>'number'\<close>, or any other value (string, null, undefined, ...), which carries
  the number that a relational comparison against a number coerces it to.
\<close>

datatype jsval = Number jsnum | Other jsnum

fun toNumber :: "jsval \<Rightarrow> jsnum" where
  "toNumber (Number n) = n"
| "toNumber (Other n) = n"

fun js_neg :: "jsnum \<Rightarrow> jsnum" where
  "js_neg (Fin a) = Fin (- a)"
| "js_neg PInf = NInf"
| "js_neg NInf = PInf"
| "js_neg NaN = NaN"

fun js_add :: "jsnum \<Rightarrow> jsnum \<Rightarrow> jsnum" where
  "js_add NaN _ = NaN"
| "js_add _ NaN = NaN"
| "js_add (Fin a) (Fin b) = Fin (a + b)"
| "js_add PInf NInf = NaN"
| "js_add NInf PInf = NaN"
| "js_add PInf _ = PInf"
| "js_add _ PInf = PInf"
| "js_add NInf _ = NInf"
| "js_add _ NInf = NInf"

definition js_sub :: "jsnum \<Rightarrow> jsnum \<Rightarrow> jsnum" where
  "js_sub a b = js_add a (js_neg b)"

text \<open>The sign of a number: \<open>1\<close>, \<open>0\<close> or \<open>-1\<close> (NaN has none).\<close>

fun js_sign :: "jsnum \<Rightarrow> int" where
  "js_sign (Fin a) = (if a > 0 then 1 else if a < 0 then - 1 else 0)"
| "js_sign PInf = 1"
| "js_sign NInf = - 1"
| "js_sign NaN = 0"

definition inf_of_sign :: "int \<Rightarrow> jsnum" where
  "inf_of_sign k = (if k > 0 then PInf else if k < 0 then NInf else NaN)"

fun js_mul :: "jsnum \<Rightarrow> jsnum \<Rightarrow> jsnum" where
  "js_mul NaN _ = NaN"
| "js_mul _ NaN = NaN"
| "js_mul (Fin a) (Fin b) = Fin (a * b)"
| "js_mul a b = inf_of_sign (js_sign a * js_sign b)"

text \<open>
  Division: a finite nonzero value over zero is an infinity, zero over zero and an
  infinity over an infinity are NaN, a finite value over an infinity is zero.
\<close>

fun js_div :: "jsnum \<Rightarrow> jsnum \<Rightarrow> jsnum" where
  "js_div NaN _ = NaN"
| "js_div _ NaN = NaN"
| "js_div (Fin a) (Fin b) = (if b = 0 then inf_of_sign (js_sign (Fin a)) else Fin (a / b))"
| "js_div (Fin a) _ = Fin 0"
| "js_div a (Fin b) = inf_of_sign (js_sign a * (if b < 0 then - 1 else 1))"
| "js_div _ _ = NaN"

text \<open>Relational operators: every comparison with NaN is false.\<close>

fun js_lt :: "jsnum \<Rightarrow> jsnum \<Rightarrow> bool" where
  "js_lt NaN _ = False"
| "js_lt _ NaN = False"
| "js_lt (Fin a) (Fin b) = (a < b)"
| "js_lt NInf NInf = False"
| "js_lt NInf _ = True"
| "js_lt _ NInf = False"
| "js_lt PInf _ = False"
| "js_lt _ PInf = True"

definition js_eq :: "jsnum \<Rightarrow> jsnum \<Rightarrow> bool" where
  "js_eq a b = (a \<noteq> NaN \<and> a = b)"

definition js_le :: "jsnum \<Rightarrow> jsnum \<Rightarrow> bool" where
  "js_le a b = (js_lt a b \<or> js_eq a b)"

definition js_gt :: "jsnum \<Rightarrow> jsnum \<Rightarrow> bool" where
  "js_gt a b = js_lt b a"

definition js_ge :: "jsnum \<Rightarrow> jsnum \<Rightarrow> bool" where
  "js_ge a b = js_le b a"

text \<open>\<^verbatim>\<open>Math.min\<close> and \<^verbatim>\<open>Math.max\<close> of two arguments: NaN if either is NaN.\<close>

definition Math_min :: "jsnum \<Rightarrow> jsnum \<Rightarrow> jsnum" where
  "Math_min a b = (if a = NaN \<or> b = NaN then NaN else if js_lt b a then b else a)"

definition Math_max :: "jsnum \<Rightarrow> jsnum \<Rightarrow> jsnum" where
  "Math_max a b = (if a = NaN \<or> b = NaN then NaN else if js_lt a b then b else a)"

text \<open>
  The guard \<^verbatim>\<open>typeof x === 'number' && !isNaN(x)\<close> that the program puts before its
  numeric fields.
\<close>

fun validNumber :: "jsval \<Rightarrow> bool" where
  "validNumber (Number n) = (n \<noteq> NaN)"
| "validNumber (Other _) = False"

text \<open>\<^verbatim>\<open>typeof x === 'number' && !isNaN(x) ? x : d\<close>\<close>

definition numberOr :: "jsval \<Rightarrow> rat \<Rightarrow> jsnum" where
  "numberOr v d = (if validNumber v then toNumber v else Fin d)"

section \<open>The soil moisture manager\<close>

text \<open>
  The two numbers that \<^verbatim>\<open>scheduleIrrigation\<close> reads from a schedule time with
  \<^verbatim>\<open>timeString.split(':').map(Number)\<close> and that its callback holds.
\<close>

type_synonym hhmm = "nat \<times> nat"

text \<open>
  An entry of the soil manager's schedule list: a string, \<^verbatim>\<open>null\<close> (from a stored
  list) or \<^verbatim>\<open>undefined\<close> (from a schedule field that is missing).
\<close>

datatype scheduleEntry = Time string | NullEntry | UndefinedEntry

text \<open>
  What \<^verbatim>\<open>new Date()\<close> gives at a call: the time in milliseconds and the wall-clock
  fields read from it.
\<close>

record clock =
  ms :: int
  hours :: nat
  minutes :: nat
  seconds :: nat

text \<open>
  \<^verbatim>\<open>SoilMoistureManager.settings\<close>. Every write of the program to
  \<open>currentMoisture\<close> and \<open>irrigationDuration\<close> stores a value of type number (possibly
  NaN), and every write to the accumulator a finite number, so these are the field types.
  \<open>moistureThresholds\<close> holds the \<open>min\<close> of the thresholds object when the object is
  set; \<open>autoIrrigation_soil\<close> is the optional flag \<^verbatim>\<open>settings.autoIrrigation\<close> of the
  soil manager. Fields that only the display reads are left out.
\<close>

record soil =
  currentMoisture :: jsnum
  irrigationDuration :: jsnum
  weather :: string
  isIrrigating :: bool
  irrigationStartTime :: "int option"
  irrigationTargetMoisture :: jsnum
  lastUpdate :: "int option"
  scheduledIrrigations :: "scheduleEntry list"
  lastIrrigationCheck :: int
  moistureDecreaseAccumulator :: rat
  moistureThresholds :: "jsval option"
  autoIrrigation_soil :: "bool option"

text \<open>
  The check \<^verbatim>\<open>typeof m !== 'number' || isNaN(m)\<close> followed by the reset to 45, as
  \<^verbatim>\<open>startIrrigation\<close>, \<^verbatim>\<open>updateMoisture\<close> and \<^verbatim>\<open>getCurrentMoistureStatus\<close>
  have it.
\<close>

definition resetInvalidMoisture :: "soil \<Rightarrow> soil" where
  "resetInvalidMoisture s =
     (if currentMoisture s = NaN then s\<lparr>currentMoisture := Fin 45\<rparr> else s)"

definition startIrrigation :: "int \<Rightarrow> soil \<Rightarrow> soil" where
  "startIrrigation now s =
     (if isIrrigating s then s
      else
        let s1 = resetInvalidMoisture s;
            targetMoisture = Math_min (Fin 40) (Math_max (Fin 25) (js_add (currentMoisture s1) (Fin 12)))
        in s1\<lparr>isIrrigating := True,
               irrigationStartTime := Some now,
               irrigationTargetMoisture := targetMoisture,
               moistureDecreaseAccumulator := 0\<rparr>)"

text \<open>
  \<^verbatim>\<open>stopIrrigation\<close> is what the timer set by \<^verbatim>\<open>startIrrigation\<close> runs after the
  duration; the timer itself is not part of the state.
\<close>

definition stopIrrigation :: "soil \<Rightarrow> soil" where
  "stopIrrigation s =
     (if \<not> isIrrigating s then s
      else s\<lparr>isIrrigating := False,
              irrigationStartTime := None,
              moistureDecreaseAccumulator := 0\<rparr>)"

text \<open>\<open>r\<close> is the value of \<^verbatim>\<open>Math.random()\<close>, a number in \<open>[0, 1)\<close>.\<close>

definition applyRainEffect :: "rat \<Rightarrow> soil \<Rightarrow> soil" where
  "applyRainEffect r s =
     (let rainMoisture = js_add (Fin 75) (js_mul (Fin r) (Fin 15))
      in s\<lparr>currentMoisture := Math_min (Fin 100) (Math_max (Fin 0) rainMoisture),
            moistureDecreaseAccumulator := 0\<rparr>)"

definition setWeather :: "rat \<Rightarrow> string \<Rightarrow> soil \<Rightarrow> soil" where
  "setWeather r w s =
     (let oldWeather = weather s;
          s1 = s\<lparr>weather := w\<rparr>
      in if w = ''hujan'' \<and> oldWeather \<noteq> ''hujan'' then applyRainEffect r s1 else s1)"

definition emptyMoisture :: "soil \<Rightarrow> soil" where
  "emptyMoisture s = s\<lparr>currentMoisture := Fin 0, moistureDecreaseAccumulator := 0\<rparr>"

text \<open>The interval is \<open>None\<close> for \<^verbatim>\<open>Infinity\<close>.\<close>

record evaporationParams =
  rate :: rat
  interval :: "rat option"

definition getEvaporationParameters :: "string \<Rightarrow> evaporationParams" where
  "getEvaporationParameters w =
     (if w = ''cerah'' then \<lparr>rate = 1, interval = Some 15\<rparr>
      else if w = ''mendung'' then \<lparr>rate = 1, interval = Some 30\<rparr>
      else if w = ''hujan'' then \<lparr>rate = 0, interval = None\<rparr>
      else \<lparr>rate = 1, interval = Some 20\<rparr>)"

text \<open>
  The \<^verbatim>\<open>while\<close> loop of \<^verbatim>\<open>processNaturalEvaporation\<close>, on the moisture, the
  accumulator and the changed flag. The parameters are those of the weather, which the
  loop does not change.
\<close>

function evaporationLoop :: "string \<Rightarrow> jsnum \<Rightarrow> rat \<Rightarrow> bool \<Rightarrow> jsnum \<times> rat \<times> bool" where
  "evaporationLoop w m acc changed =
     (case interval (getEvaporationParameters w) of
        None \<Rightarrow> (m, acc, changed)
      | Some i \<Rightarrow>
          if acc \<ge> i
          then evaporationLoop w
                 (Math_max (Fin 0) (js_sub m (Fin (rate (getEvaporationParameters w)))))
                 (acc - i) True
          else (m, acc, changed))"
  by pat_completeness auto

lemma evaporation_interval_ge: "interval (getEvaporationParameters w) = Some i \<Longrightarrow> 15 \<le> i"
  by (auto simp: getEvaporationParameters_def split: if_splits)

termination evaporationLoop
proof (relation "measure (\<lambda>(w, m, acc, changed). nat \<lfloor>acc\<rfloor>)")
  show "wf (measure (\<lambda>(w, m, acc, changed). nat \<lfloor>acc\<rfloor>))" by simp
next
  fix w :: string and m :: jsnum and acc :: rat and changed :: bool and i :: rat
  assume i: "interval (getEvaporationParameters w) = Some i" and le: "i \<le> acc"
  have "15 \<le> i" using i by (rule evaporation_interval_ge)
  then have "\<lfloor>acc - i\<rfloor> < \<lfloor>acc\<rfloor>" and "0 < \<lfloor>acc\<rfloor>" using le by linarith+
  then show "((w, Math_max (Fin 0) (js_sub m (Fin (rate (getEvaporationParameters w)))), acc - i, True),
              (w, m, acc, changed)) \<in> measure (\<lambda>(w, m, acc, changed). nat \<lfloor>acc\<rfloor>)"
    by simp
qed

definition processNaturalEvaporation :: "rat \<Rightarrow> soil \<Rightarrow> bool \<times> soil" where
  "processNaturalEvaporation timeDiff s =
     (let evaporationParams = getEvaporationParameters (weather s)
      in if rate evaporationParams > 0
         then
           (case evaporationLoop (weather s) (currentMoisture s)
                   (moistureDecreaseAccumulator s + timeDiff) False of
              (m, acc, changed) \<Rightarrow>
                (changed, s\<lparr>currentMoisture := m, moistureDecreaseAccumulator := acc\<rparr>))
         else (False, s))"

text \<open>The time between two instants in minutes: \<^verbatim>\<open>(a - b) / 1000 / 60\<close>.\<close>

definition minutesBetween :: "int \<Rightarrow> int \<Rightarrow> rat" where
  "minutesBetween a b = of_int (a - b) / 1000 / 60"

text \<open>
  \<^verbatim>\<open>processIrrigationIncrease\<close> reads the clock again; \<open>now\<close> is the instant of the
  tick that calls it.
\<close>

definition processIrrigationIncrease :: "int \<Rightarrow> rat \<Rightarrow> soil \<Rightarrow> soil" where
  "processIrrigationIncrease now timeDiff s =
     (let start = (case irrigationStartTime s of Some t \<Rightarrow> t | None \<Rightarrow> now);
          irrigationTime = minutesBetween now start
      in if js_le (Fin irrigationTime) (irrigationDuration s)
         then
           let targetMoisture = Math_min (Fin 40) (Math_max (Fin 25) (js_add (currentMoisture s) (Fin 15)));
               totalIncrease = js_sub targetMoisture (currentMoisture s);
               increaseRate = js_div totalIncrease (irrigationDuration s);
               increaseAmount = js_mul increaseRate (Fin timeDiff);
               m1 = Math_min targetMoisture (js_add (currentMoisture s) increaseAmount)
           in s\<lparr>currentMoisture := Math_min (Fin 40) m1\<rparr>
         else s)"

definition updateMoisture :: "int \<Rightarrow> soil \<Rightarrow> soil" where
  "updateMoisture now s =
     (let last = (case lastUpdate s of Some t \<Rightarrow> t | None \<Rightarrow> now - 60000);
          timeDiff = minutesBetween now last;
          actualTimeDiff = min timeDiff 60;
          s1 = resetInvalidMoisture s;
          s2 = (if isIrrigating s1 then processIrrigationIncrease now actualTimeDiff s1
                else if weather s1 \<noteq> ''hujan'' then snd (processNaturalEvaporation actualTimeDiff s1)
                else s1);
          s3 = resetInvalidMoisture s2;
          s4 = s3\<lparr>currentMoisture := Math_max (Fin 0) (Math_min (Fin 100) (currentMoisture s3))\<rparr>
      in s4\<lparr>lastUpdate := Some now\<rparr>)"

text \<open>\<open>ticks\<close> runs \<^verbatim>\<open>updateMoisture\<close> at each of the given instants in turn.\<close>

fun ticks :: "int list \<Rightarrow> soil \<Rightarrow> soil" where
  "ticks [] s = s"
| "ticks (t # ts) s = ticks ts (updateMoisture t s)"

text \<open>The instants of \<open>n\<close> ticks one minute apart after \<open>t0\<close>.\<close>

definition minuteTicks :: "int \<Rightarrow> nat \<Rightarrow> int list" where
  "minuteTicks t0 n = map (\<lambda>k. t0 + 60000 * int k) [1..<Suc n]"

text \<open>
  \<^verbatim>\<open>getCurrentMoistureStatus\<close>: resets an invalid moisture, then reports the moisture
  (paired here with the manager's state after the call).
\<close>

definition getCurrentMoistureStatus :: "soil \<Rightarrow> jsnum \<times> soil" where
  "getCurrentMoistureStatus s =
     (let s1 = resetInvalidMoisture s in (currentMoisture s1, s1))"

definition shouldTriggerIrrigation :: "soil \<Rightarrow> bool" where
  "shouldTriggerIrrigation s =
     (let threshold = (case moistureThresholds s of Some mn \<Rightarrow> toNumber mn | None \<Rightarrow> Fin 35)
      in js_lt (currentMoisture s) threshold \<and> \<not> isIrrigating s \<and> autoIrrigation_soil s \<noteq> Some False)"

section \<open>The water volume manager\<close>

text \<open>
  \<^verbatim>\<open>WaterVolumeManager.settings\<close>. The settings are loaded by spreading the parsed
  JSON over the defaults, so the numeric fields may hold any value; a comparison between
  two such fields is modelled through \<open>toNumber\<close> (the comparison of two strings as
  strings is not modelled). The estimated time of emptying, the time of the last
  refill and the irrigation log, which no check of an irrigation reads, are left out.
\<close>

record water =
  tankCapacity :: jsval
  currentLevel :: jsval
  irrigationVolume :: jsval
  schedules :: "(string \<times> bool) list"
  autoIrrigation :: bool

text \<open>
  \<^verbatim>\<open>performIrrigation\<close> returns \<^verbatim>\<open>true\<close> or \<^verbatim>\<open>false\<close> and shows a notification;
  the outcome names the branch taken: \<open>Irrigated\<close> is \<^verbatim>\<open>true\<close>, the other three
  are \<^verbatim>\<open>false\<close> with the notification of the auto-irrigation switch, of the moist
  soil, and of the missing water.
\<close>

datatype outcome = Irrigated | AutoIrrigationDisabled | SoilAlreadyWet | InsufficientWater

text \<open>
  \<^verbatim>\<open>WaterVolumeManager.performIrrigation\<close> as the class defines it, at the instant
  \<open>now\<close>. The soil manager \<^verbatim>\<open>window.soilMoistureManager\<close> is \<open>None\<close> when it is not
  set.
\<close>

definition performIrrigation :: "int \<Rightarrow> water \<Rightarrow> soil option \<Rightarrow> outcome \<times> water \<times> soil option" where
  "performIrrigation now w so =
     (let level = numberOr (currentLevel w) 72;
          volume = numberOr (irrigationVolume w) 7
      in if \<not> autoIrrigation w then (AutoIrrigationDisabled, w, so)
         else
           let so1 = map_option (\<lambda>s. snd (getCurrentMoistureStatus s)) so
           in if (case so of Some s \<Rightarrow> js_ge (fst (getCurrentMoistureStatus s)) (Fin 35) | None \<Rightarrow> False)
              then (SoilAlreadyWet, w, so1)
              else if js_ge level volume
              then (Irrigated,
                    w\<lparr>currentLevel := Number (Math_max (Fin 0) (js_sub level volume))\<rparr>,
                    map_option (startIrrigation now) so1)
              else (InsufficientWater, w, so1))"

text \<open>
  The soil manager replaces \<^verbatim>\<open>waterVolumeManager.performIrrigation\<close> by a function
  that calls the one it found: \<^verbatim>\<open>setupIrrigationListener\<close> (\<open>Listener\<close>) and
  \<^verbatim>\<open>syncWithWaterManager\<close> (\<open>Synced\<close>). \<open>installed\<close> is the function in place.
  Both call \<^verbatim>\<open>this.startIrrigation()\<close> on the soil manager that installed them, so
  the soil manager is set whenever one of them runs. \<open>Synced\<close> returns nothing; the
  outcome given here is that of the call it wraps, or the missing water it reports itself.
\<close>

datatype installed = Original | Listener installed | Synced installed

fun callPerformIrrigation ::
  "installed \<Rightarrow> int \<Rightarrow> water \<Rightarrow> soil option \<Rightarrow> outcome \<times> water \<times> soil option" where
  "callPerformIrrigation Original now w so = performIrrigation now w so"
| "callPerformIrrigation (Listener h) now w so =
     (case callPerformIrrigation h now w so of
        (result, w1, so1) \<Rightarrow>
          if js_ge (toNumber (currentLevel w1)) (toNumber (irrigationVolume w1))
          then (result, w1, map_option (startIrrigation now) so1)
          else (result, w1, so1))"
| "callPerformIrrigation (Synced h) now w so =
     (if js_ge (toNumber (currentLevel w)) (toNumber (irrigationVolume w))
      then (case callPerformIrrigation h now w so of
              (result, w1, so1) \<Rightarrow> (result, w1, map_option (startIrrigation now) so1))
      else (InsufficientWater, w, so))"

text \<open>
  The callback that \<^verbatim>\<open>scheduleIrrigation\<close> registers for one schedule time, run at
  one reading of the clock. The result is \<open>None\<close> when the clock does not match.
\<close>

definition scheduleCheck ::
  "installed \<Rightarrow> hhmm \<Rightarrow> clock \<Rightarrow> water \<Rightarrow> soil option \<Rightarrow> outcome option \<times> water \<times> soil option" where
  "scheduleCheck h slot clk w so =
     (if hours clk = fst slot \<and> minutes clk = snd slot \<and> seconds clk = 0
      then
        if autoIrrigation w \<and> js_ge (toNumber (currentLevel w)) (toNumber (irrigationVolume w))
        then
          let shouldIrrigate = (case so of Some s \<Rightarrow> shouldTriggerIrrigation s | None \<Rightarrow> True)
          in if shouldIrrigate
             then (case callPerformIrrigation h (ms clk) w so of
                     (result, w1, so1) \<Rightarrow> (Some result, w1, so1))
             else (Some SoilAlreadyWet, w, map_option (\<lambda>s. snd (getCurrentMoistureStatus s)) so)
        else (Some (if \<not> autoIrrigation w then AutoIrrigationDisabled else InsufficientWater), w, so)
      else (None, w, so))"

text \<open>
  \<^verbatim>\<open>scheduleIrrigations\<close> registers one callback for every enabled schedule;
  \<open>runChecks\<close> runs the callbacks, given by the numbers each of them holds, in that
  order at one reading of the clock.
\<close>

fun runChecks :: "installed \<Rightarrow> hhmm list \<Rightarrow> clock \<Rightarrow> water \<Rightarrow> soil option \<Rightarrow> water \<times> soil option" where
  "runChecks h [] clk w so = (w, so)"
| "runChecks h (slot # slots) clk w so =
     (case scheduleCheck h slot clk w so of (r, w1, so1) \<Rightarrow> runChecks h slots clk w1 so1)"

section \<open>The settings the constructors start from\<close>

definition initialSoil :: "int \<Rightarrow> soil" where
  "initialSoil t0 =
     \<lparr>currentMoisture = Fin 45,
      irrigationDuration = Fin 15,
      weather = ''cerah'',
      isIrrigating = False,
      irrigationStartTime = None,
      irrigationTargetMoisture = Fin 40,
      lastUpdate = Some t0,
      scheduledIrrigations = [Time ''07:00'', Time ''16:00''],
      lastIrrigationCheck = t0,
      moistureDecreaseAccumulator = 0,
      moistureThresholds = None,
      autoIrrigation_soil = None\<rparr>"

definition initialWater :: water where
  "initialWater =
     \<lparr>tankCapacity = Number (Fin 90),
      currentLevel = Number (Fin 72),
      irrigationVolume = Number (Fin 7),
      schedules = [(''07:00'', True), (''16:00'', True)],
      autoIrrigation = True\<rparr>"

section \<open>The durable store\<close>

text \<open>
  An item of \<^verbatim>\<open>localStorage\<close> as \<^verbatim>\<open>JSON.parse\<close> sees it: no item (or the
  empty text, which the program skips like a missing item), a text that does not parse,
  the text \<^verbatim>\<open>null\<close> (reading a field of it throws), or an object. A primitive reads
  like an object without fields.
\<close>

datatype 'a item = NoItem | Unparsable | JNull | Obj 'a

datatype error = SyntaxError | TypeError

text \<open>
  The fields of the item \<^verbatim>\<open>soilMoistureSettings\<close> that \<^verbatim>\<open>loadSettings\<close> reads.
  The two numeric fields hold any JSON value; \<open>saved_weather\<close> and
  \<open>saved_scheduledIrrigations\<close> are \<open>None\<close> when the field is missing or null,
  \<open>saved_isIrrigating\<close> is the truth value of the field, and an entry of the stored
  list is a string or, for \<open>None\<close>, \<^verbatim>\<open>null\<close>.
\<close>

record savedSoil =
  saved_currentMoisture :: jsval
  saved_irrigationDuration :: jsval
  saved_weather :: "string option"
  saved_isIrrigating :: bool
  saved_scheduledIrrigations :: "string option list option"

text \<open>
  The fields of \<^verbatim>\<open>irrigationSettings.waterLevel\<close>; a schedule is a string, or
  \<open>None\<close> when the field is missing.
\<close>

record savedWaterLevel =
  schedule1 :: "string option"
  schedule2 :: "string option"
  schedule1Enabled :: bool
  schedule2Enabled :: bool

text \<open>
  The item \<^verbatim>\<open>irrigationSettings\<close>: \<open>saved_irrigation\<close> is \<open>None\<close> when the field
  \<^verbatim>\<open>irrigation\<close> is falsy, \<open>Some None\<close> when its \<^verbatim>\<open>duration\<close> is falsy, and
  \<open>Some (Some v)\<close> for a truthy duration \<open>v\<close>.
\<close>

record savedIrrigation =
  saved_irrigation :: "jsval option option"
  saved_waterLevel :: "savedWaterLevel option"

record storage =
  soilMoistureSettings :: "savedSoil item"
  irrigationSettings :: "savedIrrigation item"

text \<open>\<^verbatim>\<open>JSON.stringify\<close> writes a finite number as it is, and NaN and the infinities as \<^verbatim>\<open>null\<close>.\<close>

definition jsonNull :: jsval where
  "jsonNull = Other (Fin 0)"

fun stringifyNumber :: "jsnum \<Rightarrow> jsval" where
  "stringifyNumber (Fin a) = Number (Fin a)"
| "stringifyNumber _ = jsonNull"

text \<open>In an array, \<^verbatim>\<open>JSON.stringify\<close> writes \<^verbatim>\<open>undefined\<close> as \<^verbatim>\<open>null\<close>.\<close>

fun stringifyEntry :: "scheduleEntry \<Rightarrow> string option" where
  "stringifyEntry (Time t) = Some t"
| "stringifyEntry NullEntry = None"
| "stringifyEntry UndefinedEntry = None"

fun parsedEntry :: "string option \<Rightarrow> scheduleEntry" where
  "parsedEntry (Some t) = Time t"
| "parsedEntry None = NullEntry"

definition stringify :: "soil \<Rightarrow> savedSoil" where
  "stringify s =
     \<lparr>saved_currentMoisture = stringifyNumber (currentMoisture s),
      saved_irrigationDuration = stringifyNumber (irrigationDuration s),
      saved_weather = Some (weather s),
      saved_isIrrigating = isIrrigating s,
      saved_scheduledIrrigations = Some (map stringifyEntry (scheduledIrrigations s))\<rparr>"

text \<open>
  \<^verbatim>\<open>SoilMoistureManager.saveSettings\<close>: builds \<open>settingsToSave\<close> and then writes
  \<^verbatim>\<open>JSON.stringify(this.settings)\<close>.
\<close>

definition saveSettings :: "soil \<Rightarrow> storage \<Rightarrow> storage" where
  "saveSettings s st =
     (let settingsToSave =
            s\<lparr>currentMoisture := (if currentMoisture s \<noteq> NaN then currentMoisture s else Fin 45),
              irrigationDuration := (if irrigationDuration s \<noteq> NaN then irrigationDuration s else Fin 7)\<rparr>
      in st\<lparr>soilMoistureSettings := Obj (stringify s)\<rparr>)"

text \<open>
  \<^verbatim>\<open>SoilMoistureManager.loadSettings\<close>, on the settings the constructor has just set.
  \<^verbatim>\<open>JSON.parse\<close> is not guarded here: a text that does not parse, or \<^verbatim>\<open>null\<close>, throws.
\<close>

definition loadSettings :: "storage \<Rightarrow> soil \<Rightarrow> error + soil" where
  "loadSettings st s =
     (case (case soilMoistureSettings st of
              NoItem \<Rightarrow> Inr (Number (currentMoisture s), Number (irrigationDuration s), s)
            | Unparsable \<Rightarrow> Inl SyntaxError
            | JNull \<Rightarrow> Inl TypeError
            | Obj saved \<Rightarrow>
                Inr (if validNumber (saved_currentMoisture saved)
                       then saved_currentMoisture saved else Number (currentMoisture s),
                     if validNumber (saved_irrigationDuration saved)
                       then saved_irrigationDuration saved else Number (irrigationDuration s),
                     s\<lparr>weather := (case saved_weather saved of
                                       Some w \<Rightarrow> if w = [] then weather s else w
                                     | None \<Rightarrow> weather s),
                       isIrrigating := saved_isIrrigating saved,
                       scheduledIrrigations := (case saved_scheduledIrrigations saved of
                                                  Some l \<Rightarrow> map parsedEntry l
                                                | None \<Rightarrow> scheduledIrrigations s)\<rparr>)) of
        Inl e \<Rightarrow> Inl e
      | Inr (moisture, duration, s1) \<Rightarrow>
          (case (case irrigationSettings st of
                   NoItem \<Rightarrow> Inr (duration, s1)
                 | Unparsable \<Rightarrow> Inl SyntaxError
                 | JNull \<Rightarrow> Inl TypeError
                 | Obj parsed \<Rightarrow>
                     Inr (case saved_irrigation parsed of
                            None \<Rightarrow> duration
                          | Some None \<Rightarrow> Number (Fin 15)
                          | Some (Some v) \<Rightarrow> v,
                          case saved_waterLevel parsed of
                            None \<Rightarrow> s1
                          | Some wl \<Rightarrow>
                              s1\<lparr>scheduledIrrigations :=
                                   [Time (case schedule1 wl of
                                            Some t \<Rightarrow> if t = [] then ''07:00'' else t
                                          | None \<Rightarrow> ''07:00''),
                                    Time (case schedule2 wl of
                                            Some t \<Rightarrow> if t = [] then ''16:00'' else t
                                          | None \<Rightarrow> ''16:00'')]\<rparr>)) of
             Inl e \<Rightarrow> Inl e
           | Inr (duration2, s2) \<Rightarrow>
               Inr (s2\<lparr>currentMoisture :=
                         (if \<not> validNumber moisture \<or> js_lt (toNumber moisture) (Fin 0)
                             \<or> js_gt (toNumber moisture) (Fin 100)
                          then Fin 45 else toNumber moisture),
                       irrigationDuration :=
                         (if \<not> validNumber duration2 \<or> js_lt (toNumber duration2) (Fin 5)
                          then Fin 15 else toNumber duration2)\<rparr>)))"

text \<open>
  The \<^verbatim>\<open>DOMContentLoaded\<close> handler of the soil manager: it removes a stored item that
  does not parse or whose \<open>currentMoisture\<close> is not a valid number.
\<close>

definition clearCorrupted :: "storage \<Rightarrow> storage" where
  "clearCorrupted st =
     (case soilMoistureSettings st of
        NoItem \<Rightarrow> st
      | Unparsable \<Rightarrow> st\<lparr>soilMoistureSettings := NoItem\<rparr>
      | JNull \<Rightarrow> st\<lparr>soilMoistureSettings := NoItem\<rparr>
      | Obj parsed \<Rightarrow>
          if \<not> validNumber (saved_currentMoisture parsed)
          then st\<lparr>soilMoistureSettings := NoItem\<rparr> else st)"

text \<open>
  The handler then constructs the manager at the instant \<open>t0\<close>: the constructor sets the
  initial settings and calls \<^verbatim>\<open>loadSettings\<close>. The result is the manager's settings
  and the store, or the exception that leaves the handler.
\<close>

definition startup :: "int \<Rightarrow> storage \<Rightarrow> error + (soil \<times> storage)" where
  "startup t0 st =
     (let st1 = clearCorrupted st
      in case loadSettings st1 (initialSoil t0) of
           Inl e \<Rightarrow> Inl e
         | Inr s \<Rightarrow> Inr (s, st1))"

text \<open>
  \<^verbatim>\<open>Array.prototype.sort\<close> without a comparison function: the entries that are
  \<^verbatim>\<open>undefined\<close> go to the end, the others are ordered by their strings (\<^verbatim>\<open>null\<close> by
  \<^verbatim>\<open>'null'\<close>), entries with equal strings keeping their order.
\<close>

fun entryString :: "scheduleEntry \<Rightarrow> string" where
  "entryString (Time t) = t"
| "entryString NullEntry = ''null''"
| "entryString UndefinedEntry = ''undefined''"

definition sortEntries :: "scheduleEntry list \<Rightarrow> scheduleEntry list" where
  "sortEntries xs =
     sort_key entryString (filter (\<lambda>x. x \<noteq> UndefinedEntry) xs)
       @ filter (\<lambda>x. x = UndefinedEntry) xs"

text \<open>
  One comparison of \<^verbatim>\<open>forceSyncScheduledIrrigations\<close>: both lists are sorted in place
  and compared as JSON texts; the manager's list becomes the new list when they differ.
\<close>

definition syncWith :: "scheduleEntry list \<Rightarrow> soil \<Rightarrow> soil" where
  "syncWith newSchedules s =
     (let currentSorted = sortEntries (scheduledIrrigations s);
          newSorted = sortEntries newSchedules
      in if map stringifyEntry currentSorted \<noteq> map stringifyEntry newSorted
         then s\<lparr>scheduledIrrigations := newSorted\<rparr>
         else s\<lparr>scheduledIrrigations := currentSorted\<rparr>)"

text \<open>
  \<^verbatim>\<open>forceSyncScheduledIrrigations\<close>: takes the enabled schedules of the water manager,
  when it is set, and then those of the item \<^verbatim>\<open>irrigationSettings\<close>, when it parses
  and has \<^verbatim>\<open>waterLevel\<close> (the parse is inside \<^verbatim>\<open>try\<close>).
\<close>

definition forceSyncScheduledIrrigations :: "water option \<Rightarrow> storage \<Rightarrow> soil \<Rightarrow> soil" where
  "forceSyncScheduledIrrigations wo st s =
     (let s1 = (case wo of
                  Some w \<Rightarrow> syncWith (map (\<lambda>schedule. Time (fst schedule)) (filter snd (schedules w))) s
                | None \<Rightarrow> s);
          missing = (\<lambda>t. case t of Some x \<Rightarrow> Time x | None \<Rightarrow> UndefinedEntry)
      in case irrigationSettings st of
           Obj parsed \<Rightarrow>
             (case saved_waterLevel parsed of
                Some wl \<Rightarrow>
                  syncWith ((if schedule1Enabled wl then [missing (schedule1 wl)] else [])
                            @ (if schedule2Enabled wl then [missing (schedule2 wl)] else [])) s1
              | None \<Rightarrow> s1)
         | _ \<Rightarrow> s1)"

text \<open>The decimal digits of a number, and \<^verbatim>\<open>padStart(2, '0')\<close>.\<close>

function toString :: "nat \<Rightarrow> string" where
  "toString n =
     (if n < 10 then [''0123456789'' ! n]
      else toString (n div 10) @ [''0123456789'' ! (n mod 10)])"
  by pat_completeness auto

termination toString
  by (relation "measure id") auto

definition padStart2 :: "string \<Rightarrow> string" where
  "padStart2 t = replicate (2 - length t) (CHR ''0'') @ t"

text \<open>
  \<^verbatim>\<open>checkScheduledIrrigation\<close> of the soil manager, at one reading of the clock: it
  records the instant when the time of day, written \<^verbatim>\<open>HH:MM\<close>, is in its list and the
  last record is more than two minutes old. It starts nothing.
\<close>

definition checkScheduledIrrigation :: "clock \<Rightarrow> water option \<Rightarrow> storage \<Rightarrow> soil \<Rightarrow> soil" where
  "checkScheduledIrrigation clk wo st s =
     (let currentTime = padStart2 (toString (hours clk)) @ '':'' @ padStart2 (toString (minutes clk));
          s1 = forceSyncScheduledIrrigations wo st s
      in if Time currentTime \<in> set (scheduledIrrigations s1)
         then
           let timeSinceLastCheck = minutesBetween (ms clk) (lastIrrigationCheck s1)
           in if timeSinceLastCheck > 2 then s1\<lparr>lastIrrigationCheck := ms clk\<rparr> else s1
         else s1)"

section \<open>Timers and runs\<close>

text \<open>
  The reading of the clock at the instant \<open>t\<close> (milliseconds), in a time zone that is
  \<open>offset\<close> milliseconds ahead of UTC.
\<close>

definition clockAt :: "int \<Rightarrow> int \<Rightarrow> clock" where
  "clockAt offset t =
     \<lparr>ms = t,
      hours = nat (((t + offset) div 3600000) mod 24),
      minutes = nat (((t + offset) div 60000) mod 60),
      seconds = nat (((t + offset) div 1000) mod 60)\<rparr>"

text \<open>
  \<^verbatim>\<open>startIrrigation\<close> ends with \<^verbatim>\<open>setTimeout(() => this.stopIrrigation(), duration * 60 * 1000)\<close>,
  where \<open>duration\<close> is the irrigation duration, or 15 when that is NaN. A timer runs its
  function no earlier than its delay, taken as a whole number of milliseconds;
  \<open>stopDelay\<close> is that bound. Nothing is assumed (the bound is 0) for a delay that is
  infinite or does not fit in 32 bits.
\<close>

definition stopDelay :: "jsnum \<Rightarrow> int" where
  "stopDelay d =
     (case d of
        Fin x \<Rightarrow> if x * 60 * 1000 < 2147483648 then \<lfloor>x * 60 * 1000\<rfloor> else 0
      | NaN \<Rightarrow> 15 * 60 * 1000
      | _ \<Rightarrow> 0)"

text \<open>
  Only the timer runs \<^verbatim>\<open>stopIrrigation\<close>, so a timer is pending exactly while an
  irrigation started by \<^verbatim>\<open>startIrrigation\<close> is active; it may run at the instant \<open>t\<close>
  when its delay has passed since the start.
\<close>

definition stopDue :: "int \<Rightarrow> soil \<Rightarrow> bool" where
  "stopDue t s =
     (isIrrigating s \<and>
      (case irrigationStartTime s of
         Some t0 \<Rightarrow> stopDelay (irrigationDuration s) \<le> t - t0
       | None \<Rightarrow> False))"

text \<open>
  What the browser runs, one at a time, with both managers set: the callback of a schedule
  (given by the numbers it holds), the minute tick of the moisture, the minute check of
  the soil manager's schedule list, and the timer that stops the irrigation. A step is
  \<open>None\<close> when the timer is not due.
\<close>

datatype event = SlotCallback hhmm | MoistureTick | ScheduleDetect | AutoStop

fun step ::
  "installed \<Rightarrow> int \<Rightarrow> storage \<Rightarrow> int \<Rightarrow> event \<Rightarrow> water \<times> soil \<Rightarrow> (water \<times> soil) option" where
  "step h offset st t (SlotCallback slot) (w, s) =
     (case scheduleCheck h slot (clockAt offset t) w (Some s) of
        (r, wa, Some sa) \<Rightarrow> Some (wa, sa)
      | (r, wa, None) \<Rightarrow> Some (wa, s))"
| "step h offset st t MoistureTick (w, s) = Some (w, updateMoisture t s)"
| "step h offset st t ScheduleDetect (w, s) =
     Some (w, checkScheduledIrrigation (clockAt offset t) (Some w) st s)"
| "step h offset st t AutoStop (w, s) =
     (if stopDue t s then Some (w, stopIrrigation s) else None)"

text \<open>
  A run from the instant \<open>tcur\<close>: events with their instants, which do not go back. The
  result is \<open>None\<close> when the list is not a run.
\<close>

fun run ::
  "installed \<Rightarrow> int \<Rightarrow> storage \<Rightarrow> int \<Rightarrow> (int \<times> event) list \<Rightarrow> water \<times> soil
     \<Rightarrow> (water \<times> soil) option" where
  "run h offset st tcur [] ws = Some ws"
| "run h offset st tcur ((t, ev) # evs) ws =
     (if t < tcur then None
      else case step h offset st t ev ws of
             None \<Rightarrow> None
           | Some ws' \<Rightarrow> run h offset st t evs ws')"

section \<open>Auxiliary facts\<close>

lemmas js_defs = js_ge_def js_le_def js_eq_def js_gt_def js_sub_def Math_min_def Math_max_def
  numberOr_def inf_of_sign_def

lemma js_ge_not_NaN: "js_ge a b \<Longrightarrow> a \<noteq> NaN"
  by (cases a; cases b) (auto simp: js_defs)

lemma resetInvalidMoisture_id: "currentMoisture s \<noteq> NaN \<Longrightarrow> resetInvalidMoisture s = s"
  by (simp add: resetInvalidMoisture_def)

lemma performIrrigation_wet:
  "js_ge (currentMoisture s) (Fin 35) \<Longrightarrow> autoIrrigation w \<Longrightarrow>
   performIrrigation now w (Some s) = (SoilAlreadyWet, w, Some s)"
  by (simp add: performIrrigation_def getCurrentMoistureStatus_def resetInvalidMoisture_id js_ge_not_NaN)

lemma performIrrigation_auto_off:
  "\<not> autoIrrigation w \<Longrightarrow> performIrrigation now w so = (AutoIrrigationDisabled, w, so)"
  by (simp add: performIrrigation_def)

lemma startIrrigation_moisture_ge:
  "js_ge (currentMoisture s) b \<Longrightarrow> currentMoisture (startIrrigation now s) = currentMoisture s"
  by (auto simp: startIrrigation_def resetInvalidMoisture_id js_ge_not_NaN Let_def)

lemma call_wet_water:
  "js_ge (currentMoisture s) (Fin 35) \<Longrightarrow>
   \<exists>out s'. callPerformIrrigation h now w (Some s) = (out, w, Some s') \<and> out \<noteq> Irrigated
      \<and> currentMoisture s' = currentMoisture s"
proof (induction h)
  case Original
  then show ?case
    by (cases "autoIrrigation w") (auto simp: performIrrigation_wet performIrrigation_auto_off)
next
  case (Listener h)
  then show ?case by (auto simp: startIrrigation_moisture_ge)
next
  case (Synced h)
  then show ?case by (auto simp: startIrrigation_moisture_ge)
qed

lemma call_auto_off_water:
  "\<not> autoIrrigation w \<Longrightarrow>
   \<exists>out so'. callPerformIrrigation h now w so = (out, w, so') \<and> out \<noteq> Irrigated"
proof (induction h)
  case Original
  then show ?case by (simp add: performIrrigation_auto_off)
next
  case (Listener h)
  then show ?case by auto
next
  case (Synced h)
  then show ?case by auto
qed

lemma Math_min_Fin: "Math_min (Fin a) (Fin b) = Fin (min a b)"
  by (auto simp: Math_min_def)

lemma Math_max_Fin: "Math_max (Fin a) (Fin b) = Fin (max a b)"
  by (auto simp: Math_max_def)

lemma js_sub_Fin: "js_sub (Fin a) (Fin b) = Fin (a - b)"
  by (simp add: js_sub_def)

lemma js_div_Fin: "b \<noteq> 0 \<Longrightarrow> js_div (Fin a) (Fin b) = Fin (a / b)"
  by simp

lemma js_le_Fin: "js_le (Fin a) (Fin b) = (a \<le> b)"
  by (auto simp: js_le_def js_eq_def)

lemma js_ge_Fin: "js_ge (Fin a) (Fin b) = (b \<le> a)"
  by (auto simp: js_ge_def js_le_def js_eq_def)

lemma js_gt_Fin: "js_gt (Fin a) (Fin b) = (b < a)"
  by (auto simp: js_gt_def)

lemmas js_Fin = Math_min_Fin Math_max_Fin js_sub_Fin js_div_Fin js_le_Fin js_ge_Fin js_gt_Fin

declare evaporationLoop.simps [simp del] toString.simps [simp del]

text \<open>
  The loop of the evaporation in clear weather: it runs \<open>\<lfloor>a / 15\<rfloor>\<close> times, each
  time taking one percent, not below zero, and 15 minutes from the accumulator.
\<close>

lemma evaporationLoop_cerah:
  "0 \<le> a \<Longrightarrow> nat \<lfloor>a / 15\<rfloor> = n \<Longrightarrow> 0 \<le> m \<Longrightarrow>
   evaporationLoop ''cerah'' (Fin m) a c =
     (Fin (max 0 (m - of_nat n)), a - 15 * of_nat n, c \<or> 0 < n)"
proof (induction n arbitrary: a m c)
  case 0
  then have "a < 15" by (simp add: floor_le_zero)
  with 0 show ?case
    by (subst evaporationLoop.simps) (simp add: getEvaporationParameters_def)
next
  case (Suc n)
  have a15: "15 \<le> a"
  proof (rule ccontr)
    assume "\<not> 15 \<le> a"
    then have "a / 15 < 1" by simp
    then have "\<lfloor>a / 15\<rfloor> \<le> 0" by linarith
    with Suc.prems(2) show False by simp
  qed
  have fl: "\<lfloor>(a - 15) / 15\<rfloor> = \<lfloor>a / 15\<rfloor> - 1"
  proof -
    have e: "(a - 15) / 15 = a / 15 - 1" by (simp add: field_simps)
    show ?thesis unfolding e by (rule floor_diff_one)
  qed
  have n': "nat \<lfloor>(a - 15) / 15\<rfloor> = n"
    using Suc.prems(2) fl by simp
  have ih: "evaporationLoop ''cerah'' (Fin (max 0 (m - 1))) (a - 15) True =
     (Fin (max 0 (max 0 (m - 1) - of_nat n)), a - 15 - 15 * of_nat n, True \<or> 0 < n)"
    using a15 n' by (intro Suc.IH) auto
  have unfold: "evaporationLoop ''cerah'' (Fin m) a c
      = evaporationLoop ''cerah'' (Fin (max 0 (m - 1))) (a - 15) True"
    using a15
    by (subst evaporationLoop.simps) (simp add: getEvaporationParameters_def js_Fin)
  have "max 0 (max 0 (m - 1) - of_nat n) = max 0 (m - of_nat (Suc n))"
    by (auto simp: max_def)
  then show ?case
    using unfold ih by (simp add: algebra_simps)
qed

section \<open>Irrigation requests\<close>

text \<open>
  C1. The claim: when soil irrigation is already active, \<^verbatim>\<open>performIrrigation\<close> consumes
  no tank water. The method has no check of \<open>isIrrigating\<close>: with auto irrigation on,
  a tank of 72 litres, a volume of 7 litres, the soil at 30 percent and irrigation
  already active, the call reports success and the tank goes down to 65 litres, while
  the soil manager, whose \<^verbatim>\<open>startIrrigation\<close> returns at once, is left as it was.
\<close>

theorem performIrrigation_consumes_while_irrigating:
  "performIrrigation 0 initialWater
     (Some ((initialSoil 0)\<lparr>currentMoisture := Fin 30, isIrrigating := True\<rparr>)) =
   (Irrigated, initialWater\<lparr>currentLevel := Number (Fin 65)\<rparr>,
    Some ((initialSoil 0)\<lparr>currentMoisture := Fin 30, isIrrigating := True\<rparr>))"
  by (simp add: performIrrigation_def initialWater_def initialSoil_def getCurrentMoistureStatus_def
      resetInvalidMoisture_def startIrrigation_def js_defs)

text \<open>
  C2. The claim: at 35 percent or more only scheduled triggers are skipped, a manual
  trigger still irrigates. Counterexample: the manual call on the initial settings (soil
  at 45 percent, 72 litres in the tank, 7 litres per irrigation) is skipped as well, and
  nothing changes.
\<close>

theorem manual_trigger_skipped_when_wet:
  "performIrrigation 0 initialWater (Some (initialSoil 0)) =
     (SoilAlreadyWet, initialWater, Some (initialSoil 0))"
  by (simp add: performIrrigation_def initialWater_def initialSoil_def getCurrentMoistureStatus_def
      resetInvalidMoisture_def js_defs)

text \<open>
  C2, as amended. When the soil moisture is 35 percent or more, every trigger is skipped,
  the manual one included: with auto irrigation on, \<^verbatim>\<open>performIrrigation\<close> reports the
  moist soil and changes neither the tank nor the soil; and whatever function is
  installed as \<^verbatim>\<open>performIrrigation\<close>, neither a direct call nor the callback of a
  schedule changes the tank.
\<close>

theorem wet_soil_skips_every_trigger:
  assumes "js_ge (currentMoisture s) (Fin 35)"
  shows "(autoIrrigation w \<longrightarrow> performIrrigation now w (Some s) = (SoilAlreadyWet, w, Some s))
    \<and> fst (snd (callPerformIrrigation h now w (Some s))) = w
    \<and> fst (snd (scheduleCheck h slot clk w (Some s))) = w"
proof -
  obtain out s' where c: "callPerformIrrigation h (ms clk) w (Some s) = (out, w, Some s')"
    using call_wet_water[OF assms] by blast
  obtain out2 s2 where c2: "callPerformIrrigation h now w (Some s) = (out2, w, Some s2)"
    using call_wet_water[OF assms] by blast
  show ?thesis using assms c c2
    by (simp add: performIrrigation_wet scheduleCheck_def)
qed

theorem wet_soil_skips_every_trigger_witness:
  "js_ge (currentMoisture (initialSoil 0)) (Fin 35) \<and> autoIrrigation initialWater
   \<and> performIrrigation 5 initialWater (Some (initialSoil 0)) =
       (SoilAlreadyWet, initialWater, Some (initialSoil 0))
   \<and> fst (snd (callPerformIrrigation (Synced Original) 5 initialWater (Some (initialSoil 0))))
       = initialWater
   \<and> fst (snd (scheduleCheck (Synced Original) (7, 0) \<lparr>ms = 5, hours = 7, minutes = 0, seconds = 0\<rparr>
        initialWater (Some (initialSoil 0)))) = initialWater"
proof -
  have h: "js_ge (currentMoisture (initialSoil 0)) (Fin 35)"
    by (simp add: initialSoil_def js_defs)
  have a: "autoIrrigation initialWater"
    by (simp add: initialWater_def)
  show ?thesis
    using h a wet_soil_skips_every_trigger [OF h, of initialWater 5 "Synced Original" "(7, 0)"
        "\<lparr>ms = 5, hours = 7, minutes = 0, seconds = 0\<rparr>"]
    by simp
qed

text \<open>
  C7. The claim: a manual trigger proceeds whatever the auto-irrigation flag is.
  Counterexample: with the flag off, the manual call on a tank of 72 litres and a soil at
  30 percent fails with the notification of the switch, and nothing changes.
\<close>

theorem manual_trigger_fails_when_auto_off:
  "performIrrigation 0 (initialWater\<lparr>autoIrrigation := False\<rparr>)
     (Some ((initialSoil 0)\<lparr>currentMoisture := Fin 30\<rparr>)) =
   (AutoIrrigationDisabled, initialWater\<lparr>autoIrrigation := False\<rparr>,
    Some ((initialSoil 0)\<lparr>currentMoisture := Fin 30\<rparr>))"
  by (simp add: performIrrigation_def initialWater_def)

text \<open>
  C7, as amended. \<^verbatim>\<open>performIrrigation\<close> does not know the source of a trigger: with
  auto irrigation switched off, every call, the manual one included, fails with the
  notification of the switch and changes neither the tank nor the soil; whatever function
  is installed as \<^verbatim>\<open>performIrrigation\<close>, a call does not change the tank; and the
  callback of a schedule changes nothing either.
\<close>

theorem auto_off_fails_every_trigger:
  assumes "\<not> autoIrrigation w"
  shows "performIrrigation now w so = (AutoIrrigationDisabled, w, so)
    \<and> fst (snd (callPerformIrrigation h now w so)) = w
    \<and> snd (scheduleCheck h slot clk w so) = (w, so)"
proof -
  obtain out so' where c: "callPerformIrrigation h now w so = (out, w, so')"
    using call_auto_off_water[OF assms] by blast
  show ?thesis using assms c
    by (simp add: performIrrigation_auto_off scheduleCheck_def)
qed

theorem auto_off_fails_every_trigger_witness:
  "\<not> autoIrrigation (initialWater\<lparr>autoIrrigation := False\<rparr>)
   \<and> performIrrigation 5 (initialWater\<lparr>autoIrrigation := False\<rparr>) None =
       (AutoIrrigationDisabled, initialWater\<lparr>autoIrrigation := False\<rparr>, None)
   \<and> fst (snd (callPerformIrrigation (Synced Original) 5 (initialWater\<lparr>autoIrrigation := False\<rparr>) None))
       = initialWater\<lparr>autoIrrigation := False\<rparr>
   \<and> snd (scheduleCheck (Synced Original) (7, 0) \<lparr>ms = 5, hours = 7, minutes = 0, seconds = 0\<rparr>
        (initialWater\<lparr>autoIrrigation := False\<rparr>) None) = (initialWater\<lparr>autoIrrigation := False\<rparr>, None)"
proof -
  have h: "\<not> autoIrrigation (initialWater\<lparr>autoIrrigation := False\<rparr>)"
    by simp
  show ?thesis
    using h auto_off_fails_every_trigger [OF h, of 5 None "Synced Original" "(7, 0)"
        "\<lparr>ms = 5, hours = 7, minutes = 0, seconds = 0\<rparr>"]
    by simp
qed

text \<open>
  C4. The claim: with less water than one irrigation needs, the request fails with the
  outcome of the missing water. Counterexample: on the initial settings with 5 litres
  left (7 litres per irrigation, soil at 45 percent), \<^verbatim>\<open>performIrrigation\<close> reaches the
  check of the soil first and reports the moist soil.
\<close>

theorem low_tank_reports_wet_soil_first:
  "performIrrigation 0 (initialWater\<lparr>currentLevel := Number (Fin 5)\<rparr>) (Some (initialSoil 0)) =
     (SoilAlreadyWet, initialWater\<lparr>currentLevel := Number (Fin 5)\<rparr>, Some (initialSoil 0))"
  by (simp add: performIrrigation_def initialWater_def initialSoil_def getCurrentMoistureStatus_def
      resetInvalidMoisture_def js_defs)

text \<open>
  C4, as amended. If the tank holds less than the irrigation volume (both numbers) and
  the soil moisture is a number, \<^verbatim>\<open>performIrrigation\<close> fails and changes neither the
  tank nor the soil, and its outcome is that of the first check that fails in the order
  of the code: the auto-irrigation switch, then the soil moisture of 35 percent or more,
  then the water. So it reports the missing water exactly when auto irrigation is on and
  the soil is below 35 percent. The function that \<^verbatim>\<open>syncWithWaterManager\<close> installs
  checks the water first and always reports the missing water, changing nothing.
\<close>

theorem insufficient_water_changes_nothing:
  assumes "currentLevel w = Number (Fin l)" and "irrigationVolume w = Number (Fin v)"
    and "l < v" and "currentMoisture s \<noteq> NaN"
  shows "performIrrigation now w (Some s) =
           (if \<not> autoIrrigation w then AutoIrrigationDisabled
            else if js_ge (currentMoisture s) (Fin 35) then SoilAlreadyWet
            else InsufficientWater,
            w, Some s)
    \<and> callPerformIrrigation (Synced h) now w (Some s) = (InsufficientWater, w, Some s)"
proof -
  have not_ge: "\<not> js_ge (Fin l) (Fin v)"
    using assms(3) by (simp add: js_defs)
  have "performIrrigation now w (Some s) =
           (if \<not> autoIrrigation w then AutoIrrigationDisabled
            else if js_ge (currentMoisture s) (Fin 35) then SoilAlreadyWet
            else InsufficientWater,
            w, Some s)"
    using assms not_ge
    by (simp add: performIrrigation_def getCurrentMoistureStatus_def resetInvalidMoisture_id
        numberOr_def Let_def)
  moreover have "callPerformIrrigation (Synced h) now w (Some s) = (InsufficientWater, w, Some s)"
    using assms not_ge by simp
  ultimately show ?thesis by blast
qed

theorem insufficient_water_changes_nothing_witness:
  "currentLevel (initialWater\<lparr>currentLevel := Number (Fin 5)\<rparr>) = Number (Fin 5)
   \<and> irrigationVolume (initialWater\<lparr>currentLevel := Number (Fin 5)\<rparr>) = Number (Fin 7)
   \<and> (5::rat) < 7
   \<and> currentMoisture ((initialSoil 0)\<lparr>currentMoisture := Fin 30\<rparr>) \<noteq> NaN
   \<and> performIrrigation 0 (initialWater\<lparr>currentLevel := Number (Fin 5)\<rparr>)
        (Some ((initialSoil 0)\<lparr>currentMoisture := Fin 30\<rparr>)) =
       (InsufficientWater, initialWater\<lparr>currentLevel := Number (Fin 5)\<rparr>,
        Some ((initialSoil 0)\<lparr>currentMoisture := Fin 30\<rparr>))
   \<and> callPerformIrrigation (Synced Original) 0 (initialWater\<lparr>currentLevel := Number (Fin 5)\<rparr>)
        (Some ((initialSoil 0)\<lparr>currentMoisture := Fin 30\<rparr>)) =
       (InsufficientWater, initialWater\<lparr>currentLevel := Number (Fin 5)\<rparr>,
        Some ((initialSoil 0)\<lparr>currentMoisture := Fin 30\<rparr>))"
proof -
  have h1: "currentLevel (initialWater\<lparr>currentLevel := Number (Fin 5)\<rparr>) = Number (Fin 5)"
    by simp
  have h2: "irrigationVolume (initialWater\<lparr>currentLevel := Number (Fin 5)\<rparr>) = Number (Fin 7)"
    by (simp add: initialWater_def)
  have h3: "(5::rat) < 7" by simp
  have h4: "currentMoisture ((initialSoil 0)\<lparr>currentMoisture := Fin 30\<rparr>) \<noteq> NaN"
    by simp
  have a: "autoIrrigation (initialWater\<lparr>currentLevel := Number (Fin 5)\<rparr>)"
    by (simp add: initialWater_def)
  show ?thesis
    using h1 h2 h3 h4 a insufficient_water_changes_nothing [OF h1 h2 h3 h4, of 0 Original]
    by (simp add: js_Fin)
qed

section \<open>Rain and the irrigation ramp\<close>

text \<open>
  C8. Every call of \<^verbatim>\<open>applyRainEffect\<close> (with \<^verbatim>\<open>Math.random()\<close> in \<open>[0, 1)\<close>) sets the
  soil moisture to a value in \<open>[75, 90]\<close> and the evaporation accumulator to 0, and
  \<^verbatim>\<open>setWeather\<close> applies it when the weather changes to rain from another weather.
\<close>

theorem rain_effect_range:
  assumes "0 \<le> r" and "r < 1"
  shows "(\<exists>m. currentMoisture (applyRainEffect r s) = Fin m \<and> 75 \<le> m \<and> m \<le> 90)
    \<and> moistureDecreaseAccumulator (applyRainEffect r s) = 0
    \<and> (weather s \<noteq> ''hujan'' \<longrightarrow>
          setWeather r ''hujan'' s = applyRainEffect r (s\<lparr>weather := ''hujan''\<rparr>))"
  using assms by (simp add: applyRainEffect_def setWeather_def js_defs)

theorem rain_effect_range_witness:
  "(0::rat) \<le> 1/2 \<and> (1/2::rat) < 1 \<and> weather (initialSoil 0) \<noteq> ''hujan''
   \<and> currentMoisture (setWeather (1/2) ''hujan'' (initialSoil 0)) = Fin (165/2)
   \<and> moistureDecreaseAccumulator (setWeather (1/2) ''hujan'' (initialSoil 0)) = 0"
proof -
  have h1: "(0::rat) \<le> 1/2" by simp
  have h2: "(1/2::rat) < 1" by simp
  have w: "weather (initialSoil 0) \<noteq> ''hujan''" by (simp add: initialSoil_def)
  show ?thesis
    using h1 h2 w rain_effect_range [OF h1 h2, of "initialSoil 0"]
    by (simp add: applyRainEffect_def js_defs)
qed



text \<open>
  A tick of \<^verbatim>\<open>updateMoisture\<close> during the irrigation leaves the moisture in
  \<open>[0, 40]\<close>.
\<close>

lemma updateMoisture_irrigating:
  assumes "isIrrigating s" and "currentMoisture s = Fin m" and "irrigationDuration s = Fin d"
    and "0 < d" and "lastUpdate s = Some t"
    and "minutesBetween now (case irrigationStartTime s of Some t \<Rightarrow> t | None \<Rightarrow> now) \<le> d"
  shows "\<exists>x. currentMoisture (updateMoisture now s) = Fin x \<and> 0 \<le> x \<and> x \<le> 40"
proof -
  let ?e = "min (minutesBetween now t) 60"
  let ?target = "min 40 (max 25 (m + 15))"
  let ?x = "min 40 (min ?target (m + (?target - m) / d * ?e))"
  have le: "js_le (Fin (minutesBetween now (case irrigationStartTime s of Some t \<Rightarrow> t | None \<Rightarrow> now))) (Fin d)"
    using assms(6) by (simp add: js_Fin)
  have p: "processIrrigationIncrease now ?e s = s\<lparr>currentMoisture := Fin ?x\<rparr>"
    using assms(2,3,4) le
    by (simp add: processIrrigationIncrease_def Let_def js_Fin del: js_le_Fin)
  have "currentMoisture (updateMoisture now s) = Fin (max 0 (min 100 ?x))"
    using assms(1,2,5) p
    by (simp add: updateMoisture_def resetInvalidMoisture_def Let_def js_Fin)
  moreover have "0 \<le> max 0 (min 100 ?x)" "max 0 (min 100 ?x) \<le> 40"
    by simp_all
  ultimately show ?thesis by blast
qed

text \<open>
  The run of the ramp from 20 percent with a duration of 15 minutes, ticked every minute:
  the moisture after the fifteenth tick is about 32.48 percent, neither the target of 32
  stored at the start nor the 35 of the first recomputed target.
\<close>

lemma ramp_from_20_percent:
  "currentMoisture (ticks (minuteTicks 0 15)
          (startIrrigation 0 ((initialSoil 0)\<lparr>currentMoisture := Fin 20\<rparr>))) =
       Fin (1248479720024 / 38443359375)"
  by (simp add: minuteTicks_def updateMoisture_def processIrrigationIncrease_def startIrrigation_def
      initialSoil_def resetInvalidMoisture_def minutesBetween_def Let_def js_Fin upt_rec)

section \<open>Evaporation\<close>

lemma ticks_append: "ticks (xs @ ys) s = ticks ys (ticks xs s)"
  by (induction xs arbitrary: s) auto

lemma minuteTicks_Suc: "minuteTicks t0 (Suc n) = minuteTicks t0 n @ [t0 + 60000 * int (Suc n)]"
  by (simp add: minuteTicks_def)

lemma updateMoisture_cerah:
  assumes "weather s = ''cerah''" and "\<not> isIrrigating s" and "currentMoisture s = Fin m"
    and "0 \<le> m" and "m \<le> 100" and "lastUpdate s = Some t"
    and "0 \<le> moistureDecreaseAccumulator s + min (minutesBetween now t) 60"
    and "k = nat \<lfloor>(moistureDecreaseAccumulator s + min (minutesBetween now t) 60) / 15\<rfloor>"
  shows "updateMoisture now s =
     s\<lparr>currentMoisture := Fin (max 0 (m - of_nat k)),
       moistureDecreaseAccumulator :=
         moistureDecreaseAccumulator s + min (minutesBetween now t) 60 - 15 * of_nat k,
       lastUpdate := Some now\<rparr>"
proof -
  let ?a = "moistureDecreaseAccumulator s + min (minutesBetween now t) 60"
  have loop: "evaporationLoop ''cerah'' (Fin m) ?a False =
     (Fin (max 0 (m - of_nat k)), ?a - 15 * of_nat k, False \<or> 0 < k)"
    using assms(4,7,8) by (intro evaporationLoop_cerah) auto
  have pe: "processNaturalEvaporation (min (minutesBetween now t) 60) s =
     (0 < k, s\<lparr>currentMoisture := Fin (max 0 (m - of_nat k)),
               moistureDecreaseAccumulator := ?a - 15 * of_nat k\<rparr>)"
    using assms(1,3) loop
    by (simp add: processNaturalEvaporation_def getEvaporationParameters_def)
  have rng: "max 0 (min 100 (max 0 (m - of_nat k))) = max 0 (m - of_nat k)"
    using assms(5) by (auto simp: max_def min_def)
  show ?thesis
    using assms(1,2,3,6) pe rng
    by (simp add: updateMoisture_def resetInvalidMoisture_def Let_def js_Fin)
qed

lemma tick_div_mod:
  fixes n :: nat
  shows "n div 15 + (n mod 15 + 1) div 15 = Suc n div 15
    \<and> n mod 15 + 1 - 15 * ((n mod 15 + 1) div 15) = Suc n mod 15
    \<and> 15 * ((n mod 15 + 1) div 15) \<le> n mod 15 + 1"
proof (cases "n mod 15 = 14")
  case True
  then show ?thesis by (simp add: div_Suc mod_Suc)
next
  case False
  have "n mod 15 < 15" by simp
  with False have lt: "n mod 15 + 1 < 15" by linarith
  then have k: "(n mod 15 + 1) div 15 = 0" by simp
  show ?thesis using lt by (simp add: k div_Suc mod_Suc)
qed

lemma minute_ticks_state:
  assumes "weather s = ''cerah''" and "\<not> isIrrigating s" and "currentMoisture s = Fin m"
    and "0 \<le> m" and "m \<le> 100" and "lastUpdate s = Some t0"
    and "moistureDecreaseAccumulator s = 0"
  shows "ticks (minuteTicks t0 n) s =
     s\<lparr>currentMoisture := Fin (max 0 (m - of_nat (n div 15))),
       moistureDecreaseAccumulator := of_nat (n mod 15),
       lastUpdate := Some (t0 + 60000 * int n)\<rparr>"
proof (induction n)
  case 0
  show ?case using assms by (simp add: minuteTicks_def)
next
  case (Suc n)
  let ?s = "s\<lparr>currentMoisture := Fin (max 0 (m - of_nat (n div 15))),
       moistureDecreaseAccumulator := of_nat (n mod 15),
       lastUpdate := Some (t0 + 60000 * int n)\<rparr>"
  let ?k = "(n mod 15 + 1) div 15"
  have mb: "minutesBetween (t0 + 60000 * int (Suc n)) (t0 + 60000 * int n) = 1"
    by (simp add: minutesBetween_def algebra_simps)
  have mb': "minutesBetween (t0 + (60000 + 60000 * int n)) (t0 + 60000 * int n) = 1"
    by (simp add: minutesBetween_def algebra_simps)
  have fl: "nat \<lfloor>(of_nat (n mod 15) + 1 :: rat) / 15\<rfloor> = ?k"
  proof -
    have "(of_nat (n mod 15) + 1 :: rat) / 15 = of_nat (n mod 15 + 1) / of_nat 15" by simp
    then show ?thesis by (simp only: floor_divide_of_nat_eq nat_int)
  qed
  have um: "updateMoisture (t0 + 60000 * int (Suc n)) ?s =
     ?s\<lparr>currentMoisture := Fin (max 0 (max 0 (m - of_nat (n div 15)) - of_nat ?k)),
        moistureDecreaseAccumulator :=
          moistureDecreaseAccumulator ?s
            + min (minutesBetween (t0 + 60000 * int (Suc n)) (t0 + 60000 * int n)) 60 - 15 * of_nat ?k,
        lastUpdate := Some (t0 + 60000 * int (Suc n))\<rparr>"
  proof (rule updateMoisture_cerah)
    show "max 0 (m - of_nat (n div 15)) \<le> 100" using assms(4,5) by (auto simp: max_def)
    show "?k = nat \<lfloor>(moistureDecreaseAccumulator ?s
            + min (minutesBetween (t0 + 60000 * int (Suc n)) (t0 + 60000 * int n)) 60) / 15\<rfloor>"
      unfolding mb using fl by simp
  qed (use assms in \<open>auto simp: mb mb'\<close>)
  have dv: "n div 15 + ?k = Suc n div 15" and md: "n mod 15 + 1 - 15 * ?k = Suc n mod 15"
    and le: "15 * ?k \<le> n mod 15 + 1"
    using tick_div_mod[of n] by simp_all
  have m1: "max 0 (max 0 (m - of_nat (n div 15)) - of_nat ?k) = max 0 (m - of_nat (Suc n div 15))"
    unfolding dv[symmetric] by (auto simp: max_def)
  have a1: "(of_nat (n mod 15) + 1 - 15 * of_nat ?k :: rat) = of_nat (Suc n mod 15)"
  proof -
    have "(of_nat (Suc n mod 15) :: rat) = of_nat (n mod 15 + 1 - 15 * ?k)" using md by simp
    also have "\<dots> = of_nat (n mod 15 + 1) - of_nat (15 * ?k)" using le by (rule of_nat_diff)
    finally show ?thesis by simp
  qed
  have "ticks (minuteTicks t0 (Suc n)) s = updateMoisture (t0 + 60000 * int (Suc n)) ?s"
    unfolding minuteTicks_Suc ticks_append Suc.IH by (simp del: of_nat_Suc)
  also have "\<dots> = ?s\<lparr>currentMoisture := Fin (max 0 (m - of_nat (Suc n div 15))),
        moistureDecreaseAccumulator := of_nat (Suc n mod 15),
        lastUpdate := Some (t0 + 60000 * int (Suc n))\<rparr>"
    unfolding um m1 mb using a1 by (simp del: of_nat_Suc)
  finally show ?case by (simp del: of_nat_Suc)
qed


lemma single_tick_state:
  assumes "weather s = ''cerah''" and "\<not> isIrrigating s" and "currentMoisture s = Fin m"
    and "0 \<le> m" and "m \<le> 100" and "lastUpdate s = Some t0"
    and "moistureDecreaseAccumulator s = 0"
  shows "currentMoisture (updateMoisture (t0 + 60000 * int n) s) =
     Fin (max 0 (m - of_nat (min n 60 div 15)))"
proof -
  have mb: "minutesBetween (t0 + 60000 * int n) t0 = of_nat n"
    by (simp add: minutesBetween_def)
  have mn: "min (of_nat n) (60::rat) = of_nat (min n 60)"
    by (simp add: min_def)
  have fl: "nat \<lfloor>(of_nat (min n 60) :: rat) / 15\<rfloor> = min n 60 div 15"
  proof -
    have "(of_nat (min n 60) :: rat) / 15 = of_nat (min n 60) / of_nat 15" by simp
    then show ?thesis by (simp only: floor_divide_of_nat_eq nat_int)
  qed
  have "updateMoisture (t0 + 60000 * int n) s =
     s\<lparr>currentMoisture := Fin (max 0 (m - of_nat (min n 60 div 15))),
       moistureDecreaseAccumulator :=
         moistureDecreaseAccumulator s + min (minutesBetween (t0 + 60000 * int n) t0) 60
           - 15 * of_nat (min n 60 div 15),
       lastUpdate := Some (t0 + 60000 * int n)\<rparr>"
  proof (rule updateMoisture_cerah)
    show "0 \<le> moistureDecreaseAccumulator s + min (minutesBetween (t0 + 60000 * int n) t0) 60"
      unfolding mb mn assms(7) by simp
    show "min n 60 div 15 =
      nat \<lfloor>(moistureDecreaseAccumulator s + min (minutesBetween (t0 + 60000 * int n) t0) 60) / 15\<rfloor>"
      unfolding mb mn assms(7) using fl by simp
  qed (use assms in auto)
  then show ?thesis by simp
qed

text \<open>
  C3, as amended. In clear weather, with no irrigation, a moisture \<open>m\<close> in \<open>[0, 100]\<close>
  and an empty accumulator: \<open>n\<close> ticks one minute apart lower the moisture by
  \<open>\<lfloor>n / 15\<rfloor>\<close> percent, not below zero; a single tick after \<open>n\<close> minutes counts at
  most 60 of them and lowers the moisture by \<open>\<lfloor>min n 60 / 15\<rfloor>\<close> percent, not below
  zero. The two agree up to 60 minutes.
\<close>

theorem evaporation_by_ticks:
  assumes "weather s = ''cerah''" and "\<not> isIrrigating s" and "currentMoisture s = Fin m"
    and "0 \<le> m" and "m \<le> 100" and "lastUpdate s = Some t0"
    and "moistureDecreaseAccumulator s = 0"
  shows "currentMoisture (ticks (minuteTicks t0 n) s) = Fin (max 0 (m - of_nat (n div 15)))
    \<and> currentMoisture (updateMoisture (t0 + 60000 * int n) s) =
          Fin (max 0 (m - of_nat (min n 60 div 15)))"
  using minute_ticks_state [OF assms, of n] single_tick_state [OF assms, of n] by simp

lemma initialSoil_cerah:
  "weather (initialSoil t0) = ''cerah''" "\<not> isIrrigating (initialSoil t0)"
  "currentMoisture (initialSoil t0) = Fin 45" "lastUpdate (initialSoil t0) = Some t0"
  "moistureDecreaseAccumulator (initialSoil t0) = 0"
  by (simp_all add: initialSoil_def)

text \<open>
  C3. The claim: after \<open>n\<close> minutes the moisture is lower by exactly \<open>\<lfloor>n / 15\<rfloor>\<close>
  percent, whether the minutes come as one tick or as \<open>n\<close> ticks. Counterexample: from
  the initial settings (45 percent), 75 ticks of one minute give 40 percent, and one tick
  after 75 minutes, of which \<^verbatim>\<open>updateMoisture\<close> counts 60, gives 41 percent.
\<close>

theorem long_tick_loses_evaporation:
  "currentMoisture (ticks (minuteTicks 0 75) (initialSoil 0)) = Fin 40
   \<and> currentMoisture (updateMoisture (0 + 60000 * int 75) (initialSoil 0)) = Fin 41"
proof -
  have a: "currentMoisture (ticks (minuteTicks 0 75) (initialSoil 0)) = Fin 40"
    using minute_ticks_state [OF initialSoil_cerah(1,2,3) _ _ initialSoil_cerah(4,5), of 0 75]
    by simp
  have b: "currentMoisture (updateMoisture (0 + 60000 * int 75) (initialSoil 0)) = Fin 41"
    using single_tick_state [OF initialSoil_cerah(1,2,3) _ _ initialSoil_cerah(4,5), of 0 75]
    by simp
  show ?thesis using a b by blast
qed

theorem evaporation_by_ticks_witness:
  "weather (initialSoil 0) = ''cerah'' \<and> \<not> isIrrigating (initialSoil 0)
   \<and> currentMoisture (initialSoil 0) = Fin 45 \<and> (0::rat) \<le> 45 \<and> (45::rat) \<le> 100
   \<and> lastUpdate (initialSoil 0) = Some 0 \<and> moistureDecreaseAccumulator (initialSoil 0) = 0
   \<and> currentMoisture (ticks (minuteTicks 0 45) (initialSoil 0)) = Fin 42
   \<and> currentMoisture (updateMoisture (0 + 60000 * int 45) (initialSoil 0)) = Fin 42"
proof -
  have h4: "(0::rat) \<le> 45" and h5: "(45::rat) \<le> 100" by simp_all
  show ?thesis
    using initialSoil_cerah [of 0] h4 h5
      evaporation_by_ticks [OF initialSoil_cerah(1,2,3) h4 h5 initialSoil_cerah(4,5), of 0 45]
    by simp
qed

section \<open>Scheduled irrigation\<close>

lemma resetInvalidMoisture_isIrrigating [simp]:
  "isIrrigating (resetInvalidMoisture s) = isIrrigating s"
  by (simp add: resetInvalidMoisture_def)

lemma resetInvalidMoisture_start [simp]:
  "irrigationStartTime (resetInvalidMoisture s) = irrigationStartTime s"
  "irrigationDuration (resetInvalidMoisture s) = irrigationDuration s"
  by (simp_all add: resetInvalidMoisture_def)

lemma startIrrigation_isIrrigating [simp]: "isIrrigating (startIrrigation now s)"
  by (simp add: startIrrigation_def Let_def)

lemma startIrrigation_while_irrigating: "isIrrigating s \<Longrightarrow> startIrrigation now s = s"
  by (simp add: startIrrigation_def)

lemma startIrrigation_started:
  "\<not> isIrrigating s \<Longrightarrow>
   irrigationStartTime (startIrrigation now s) = Some now
   \<and> irrigationDuration (startIrrigation now s) = irrigationDuration s"
  by (simp add: startIrrigation_def Let_def)

lemma irrigating_no_trigger: "isIrrigating s \<Longrightarrow> \<not> shouldTriggerIrrigation s"
  by (simp add: shouldTriggerIrrigation_def)

lemma scheduleCheck_while_irrigating:
  "isIrrigating s \<Longrightarrow>
   \<exists>r s'. scheduleCheck h slot clk w (Some s) = (r, w, Some s') \<and> isIrrigating s'
      \<and> irrigationStartTime s' = irrigationStartTime s
      \<and> irrigationDuration s' = irrigationDuration s"
  by (simp add: scheduleCheck_def irrigating_no_trigger getCurrentMoistureStatus_def Let_def)

lemma scheduleCheck_no_match:
  "\<not> (hours clk = fst slot \<and> minutes clk = snd slot \<and> seconds clk = 0) \<Longrightarrow>
   scheduleCheck h slot clk w so = (None, w, so)"
  unfolding scheduleCheck_def by (simp only: if_False)

lemma call_irrigated_started:
  "callPerformIrrigation h now w (Some s) = (Irrigated, wa, soa) \<Longrightarrow> \<not> isIrrigating s \<Longrightarrow>
   \<exists>sa. soa = Some sa \<and> isIrrigating sa \<and> irrigationStartTime sa = Some now
      \<and> irrigationDuration sa = irrigationDuration s"
proof (induction h arbitrary: wa soa)
  case Original
  then show ?case
    by (auto simp: performIrrigation_def Let_def getCurrentMoistureStatus_def startIrrigation_started
        split: if_splits)
next
  case (Listener h)
  then show ?case
    by (fastforce simp: startIrrigation_while_irrigating split: prod.splits if_splits)
next
  case (Synced h)
  then show ?case
    by (fastforce simp: startIrrigation_while_irrigating split: prod.splits if_splits)
qed

lemma scheduleCheck_irrigated:
  assumes "scheduleCheck h slot clk w (Some s) = (Some Irrigated, wa, soa)"
  shows "hours clk = fst slot \<and> minutes clk = snd slot \<and> seconds clk = 0
    \<and> (\<exists>sa. soa = Some sa \<and> isIrrigating sa \<and> irrigationStartTime sa = Some (ms clk)
          \<and> irrigationDuration sa = irrigationDuration s)"
proof -
  have m: "hours clk = fst slot \<and> minutes clk = snd slot \<and> seconds clk = 0"
    using assms by (auto simp: scheduleCheck_def split: if_splits)
  obtain r w' so' where c: "callPerformIrrigation h (ms clk) w (Some s) = (r, w', so')"
    by (cases "callPerformIrrigation h (ms clk) w (Some s)") auto
  from assms c have t: "shouldTriggerIrrigation s" and e: "r = Irrigated \<and> w' = wa \<and> so' = soa"
    by (auto simp: scheduleCheck_def Let_def split: if_splits)
  from t have "\<not> isIrrigating s" using irrigating_no_trigger by blast
  with c e call_irrigated_started[of h "ms clk" w s wa soa] m show ?thesis by blast
qed

lemma processIrrigationIncrease_keeps [simp]:
  "isIrrigating (processIrrigationIncrease now e s) = isIrrigating s"
  "irrigationStartTime (processIrrigationIncrease now e s) = irrigationStartTime s"
  "irrigationDuration (processIrrigationIncrease now e s) = irrigationDuration s"
  by (simp_all add: processIrrigationIncrease_def Let_def)

lemma processNaturalEvaporation_keeps [simp]:
  "isIrrigating (snd (processNaturalEvaporation e s)) = isIrrigating s"
  "irrigationStartTime (snd (processNaturalEvaporation e s)) = irrigationStartTime s"
  "irrigationDuration (snd (processNaturalEvaporation e s)) = irrigationDuration s"
  by (simp_all add: processNaturalEvaporation_def Let_def split: prod.splits)

lemma updateMoisture_keeps_irrigation:
  "isIrrigating (updateMoisture now s) = isIrrigating s
   \<and> irrigationStartTime (updateMoisture now s) = irrigationStartTime s
   \<and> irrigationDuration (updateMoisture now s) = irrigationDuration s"
  by (simp add: updateMoisture_def Let_def)

lemma syncWith_keeps_irrigation [simp]:
  "isIrrigating (syncWith l s) = isIrrigating s"
  "irrigationStartTime (syncWith l s) = irrigationStartTime s"
  "irrigationDuration (syncWith l s) = irrigationDuration s"
  "currentMoisture (syncWith l s) = currentMoisture s"
  "lastIrrigationCheck (syncWith l s) = lastIrrigationCheck s"
  by (simp_all add: syncWith_def Let_def)

lemma forceSync_keeps_irrigation [simp]:
  "isIrrigating (forceSyncScheduledIrrigations wo st s) = isIrrigating s"
  "irrigationStartTime (forceSyncScheduledIrrigations wo st s) = irrigationStartTime s"
  "irrigationDuration (forceSyncScheduledIrrigations wo st s) = irrigationDuration s"
  "currentMoisture (forceSyncScheduledIrrigations wo st s) = currentMoisture s"
  "lastIrrigationCheck (forceSyncScheduledIrrigations wo st s) = lastIrrigationCheck s"
  by (simp_all add: forceSyncScheduledIrrigations_def Let_def split: option.splits item.splits)

lemma checkScheduledIrrigation_keeps_irrigation:
  "isIrrigating (checkScheduledIrrigation clk wo st s) = isIrrigating s
   \<and> irrigationStartTime (checkScheduledIrrigation clk wo st s) = irrigationStartTime s
   \<and> irrigationDuration (checkScheduledIrrigation clk wo st s) = irrigationDuration s"
  by (simp add: checkScheduledIrrigation_def Let_def)

text \<open>
  The two-minute rule of \<^verbatim>\<open>checkScheduledIrrigation\<close>: a new instant is recorded only
  when the last record is more than two minutes old; the moisture is not changed.
\<close>

lemma checkScheduledIrrigation_two_minutes:
  "currentMoisture (checkScheduledIrrigation clk wo st s) = currentMoisture s
   \<and> (lastIrrigationCheck (checkScheduledIrrigation clk wo st s) \<noteq> lastIrrigationCheck s \<longrightarrow>
        minutesBetween (ms clk) (lastIrrigationCheck s) > 2)"
  by (auto simp: checkScheduledIrrigation_def Let_def split: if_splits)

lemma same_second:
  fixes a b :: int
  assumes ab: "a \<le> b" "b \<le> a + 120000"
    and sa: "(a div 1000) mod 60 = 0" and sb: "(b div 1000) mod 60 = 0"
    and mm: "(a div 60000) mod 60 = (b div 60000) mod 60"
  shows "b - a < 1000"
proof -
  define qa where "qa = a div 1000"
  define qb where "qb = b div 1000"
  have a_eq: "a = 1000 * qa + a mod 1000" and b_eq: "b = 1000 * qb + b mod 1000"
    by (simp_all add: qa_def qb_def)
  have ra: "0 \<le> a mod 1000" "a mod 1000 < 1000" and rb: "0 \<le> b mod 1000" "b mod 1000 < 1000"
    by simp_all
  have q_le: "qa \<le> qb" unfolding qa_def qb_def using ab(1) by (simp add: zdiv_mono1)
  have "b div 1000 \<le> (a + 120000) div 1000" using ab(2) by (simp add: zdiv_mono1)
  then have q_up: "qb \<le> qa + 120" by (simp add: qa_def qb_def)
  define A where "A = qa div 60"
  define B where "B = qb div 60"
  have qa60: "qa = 60 * A"
    using sa div_mult_mod_eq[of qa 60] by (simp add: A_def qa_def)
  have qb60: "qb = 60 * B"
    using sb div_mult_mod_eq[of qb 60] by (simp add: B_def qb_def)
  have dA: "a div 60000 = A"
    using zdiv_zmult2_eq[of 1000 a 60] by (simp add: A_def qa_def)
  have dB: "b div 60000 = B"
    using zdiv_zmult2_eq[of 1000 b 60] by (simp add: B_def qb_def)
  have AB: "A \<le> B" "B \<le> A + 2" using q_le q_up qa60 qb60 by linarith+
  have "A mod 60 = B mod 60" using mm dA dB by simp
  then have "(B - A) mod 60 = 0" by (metis mod_diff_cong mod_self diff_self mod_0)
  moreover have "(B - A) mod 60 = B - A" using AB by (intro mod_pos_pos_trivial) linarith+
  ultimately have "B = A" by simp
  then have "qb = qa" using qa60 qb60 by simp
  then show ?thesis using a_eq b_eq ra rb by linarith
qed

lemma clock_fields:
  "minutes (clockAt off t) = nat (((t + off) div 60000) mod 60)"
  "seconds (clockAt off t) = nat (((t + off) div 1000) mod 60)"
  by (simp_all add: clockAt_def)

lemma nat_mod60_eq: "nat (x mod 60) = nat (y mod 60) \<Longrightarrow> x mod 60 = (y mod 60 :: int)"
proof -
  assume a: "nat (x mod 60) = nat (y mod 60)"
  have "0 \<le> x mod 60" "0 \<le> y mod 60" by simp_all
  with a show ?thesis by (metis nat_eq_iff)
qed

lemma nat_mod60_zero: "nat (x mod 60) = 0 \<Longrightarrow> x mod 60 = (0 :: int)"
  using nat_mod60_eq[of x 0] by simp

lemma clock_match_same_second:
  assumes "t \<le> t'" and "t' \<le> t + 120000"
    and "minutes (clockAt off t) = snd slot" and "seconds (clockAt off t) = 0"
    and "minutes (clockAt off t') = snd slot" and "seconds (clockAt off t') = 0"
  shows "t' - t < 1000"
proof -
  have sa: "((t + off) div 1000) mod 60 = 0"
    using assms(4) unfolding clock_fields by (rule nat_mod60_zero)
  have sb: "((t' + off) div 1000) mod 60 = 0"
    using assms(6) unfolding clock_fields by (rule nat_mod60_zero)
  have "nat (((t + off) div 60000) mod 60) = nat (((t' + off) div 60000) mod 60)"
    using assms(3,5) unfolding clock_fields by simp
  then have mm: "((t + off) div 60000) mod 60 = ((t' + off) div 60000) mod 60"
    by (rule nat_mod60_eq)
  have le1: "t + off \<le> t' + off" using assms(1) by simp
  have le2: "t' + off \<le> (t + off) + 120000" using assms(2) by simp
  have "(t' + off) - (t + off) < 1000"
    using le1 le2 sa sb mm by (rule same_second)
  then show ?thesis by simp
qed

lemma run_after_fire:
  assumes match0: "minutes (clockAt off t) = snd slot" "seconds (clockAt off t) = 0"
    and delay: "1000 \<le> stopDelay D"
  shows "(\<forall>(t', ev) \<in> set evs. t' \<le> t + 120000 \<and> (\<forall>slot'. ev = SlotCallback slot' \<longrightarrow> slot' = slot)) \<Longrightarrow>
    t \<le> tcur \<Longrightarrow>
    (tcur - t < 1000 \<longrightarrow> isIrrigating s' \<and> irrigationStartTime s' = Some t \<and> irrigationDuration s' = D) \<Longrightarrow>
    run h off st tcur evs (w', s') = Some (wb, sb) \<Longrightarrow> wb = w'"
proof (induction evs arbitrary: tcur s')
  case Nil
  then show ?case by simp
next
  case (Cons e evs)
  obtain t' ev where e: "e = (t', ev)" by (cases e) auto
  have t'_up: "t' \<le> t + 120000" and slots: "\<And>slot'. ev = SlotCallback slot' \<Longrightarrow> slot' = slot"
    and rest: "\<forall>(t', ev) \<in> set evs. t' \<le> t + 120000 \<and> (\<forall>slot'. ev = SlotCallback slot' \<longrightarrow> slot' = slot)"
    using Cons.prems(1) e by auto
  have t'_low: "tcur \<le> t'"
    using Cons.prems(4) e by (auto split: if_splits)
  then have tt': "t \<le> t'" using Cons.prems(2) by linarith
  obtain w2 s2 where st: "step h off st t' ev (w', s') = Some (w2, s2)"
    and rn: "run h off st t' evs (w2, s2) = Some (wb, sb)"
    using Cons.prems(4) e t'_low by (auto split: if_splits option.splits)
  have "w2 = w' \<and> (t' - t < 1000 \<longrightarrow>
          isIrrigating s2 \<and> irrigationStartTime s2 = Some t \<and> irrigationDuration s2 = D)"
  proof (cases "t' - t < 1000")
    case True
    then have "tcur - t < 1000" using t'_low by linarith
    then have irr: "isIrrigating s'" "irrigationStartTime s' = Some t" "irrigationDuration s' = D"
      using Cons.prems(3) by auto
    show ?thesis
    proof (cases ev)
      case (SlotCallback slot')
      obtain r x where "scheduleCheck h slot' (clockAt off t') w' (Some s') = (r, w', Some x)"
        "isIrrigating x" "irrigationStartTime x = irrigationStartTime s'"
        "irrigationDuration x = irrigationDuration s'"
        using scheduleCheck_while_irrigating[OF irr(1), of h slot' "clockAt off t'" w'] by blast
      with st SlotCallback irr show ?thesis by auto
    next
      case MoistureTick
      with st irr updateMoisture_keeps_irrigation[of t' s'] show ?thesis by auto
    next
      case ScheduleDetect
      with st irr checkScheduledIrrigation_keeps_irrigation[of "clockAt off t'" "Some w'" st s']
      show ?thesis by auto
    next
      case AutoStop
      have "\<not> stopDue t' s'"
        using irr True delay by (simp add: stopDue_def)
      with st AutoStop show ?thesis by simp
    qed
  next
    case False
    have "w2 = w'"
    proof (cases ev)
      case (SlotCallback slot')
      then have sl: "slot' = slot" using slots by simp
      have "\<not> (hours (clockAt off t') = fst slot \<and> minutes (clockAt off t') = snd slot
                \<and> seconds (clockAt off t') = 0)"
        using clock_match_same_second[OF tt' t'_up match0, of ] False by blast
      then have "scheduleCheck h slot (clockAt off t') w' (Some s') = (None, w', Some s')"
        by (rule scheduleCheck_no_match)
      with st SlotCallback sl show ?thesis by simp
    next
      case MoistureTick
      with st show ?thesis by simp
    next
      case ScheduleDetect
      with st show ?thesis by simp
    next
      case AutoStop
      with st show ?thesis by (simp split: if_splits)
    qed
    with False show ?thesis by simp
  qed
  then have w2: "w2 = w'" and inv: "t' - t < 1000 \<longrightarrow>
          isIrrigating s2 \<and> irrigationStartTime s2 = Some t \<and> irrigationDuration s2 = D"
    by blast+
  from rn w2 have rn': "run h off st t' evs (w', s2) = Some (wb, sb)" by simp
  show ?case
    using Cons.IH[OF rest tt' inv rn'] .
qed


text \<open>
  C5, as amended. With the soil manager set and a timer delay of the irrigation of at
  least one second: when the callback of a schedule has irrigated at an instant \<open>t\<close>, then
  in every run of the next two minutes (callbacks of this schedule or of another one set
  to the same minute, moisture ticks, checks of the soil manager's list, the stop of the
  irrigation when it is due) no tank water is consumed.
\<close>

theorem same_minute_slots_fire_once_in_two_minutes:
  assumes "scheduleCheck h slot (clockAt off t) w (Some s) = (Some Irrigated, wa, Some sa)"
    and "1000 \<le> stopDelay (irrigationDuration s)"
    and "\<forall>(t', ev) \<in> set evs. t' \<le> t + 120000 \<and> (\<forall>slot'. ev = SlotCallback slot' \<longrightarrow> slot' = slot)"
    and "run h off st t evs (wa, sa) = Some (wb, sb)"
  shows "wb = wa"
proof -
  from scheduleCheck_irrigated[OF assms(1)]
  have m: "minutes (clockAt off t) = snd slot" "seconds (clockAt off t) = 0"
    and started: "isIrrigating sa" "irrigationStartTime sa = Some t"
      "irrigationDuration sa = irrigationDuration s"
    by (auto simp: clockAt_def)
  show ?thesis
    using run_after_fire[OF m assms(2,3) order_refl _ assms(4)] started by blast
qed

text \<open>
  C5. The claim: two enabled schedules at the same minute fire at most once together
  within two minutes. Counterexample: with no soil manager set, the callbacks of two
  schedules \<^verbatim>\<open>'07:00'\<close>, each holding the hour 7 and the minute 0, run at 07:00:00 both
  irrigate, and the tank goes from 72 to 58 litres.
\<close>

theorem two_slots_fire_twice_without_soil_manager:
  "runChecks Original [(7, 0), (7, 0)] \<lparr>ms = 0, hours = 7, minutes = 0, seconds = 0\<rparr>
     (initialWater\<lparr>schedules := [(''07:00'', True), (''07:00'', True)]\<rparr>) None =
   (initialWater\<lparr>schedules := [(''07:00'', True), (''07:00'', True)],
                 currentLevel := Number (Fin 58)\<rparr>, None)"
  by (simp add: scheduleCheck_def performIrrigation_def initialWater_def js_defs Let_def)

theorem same_minute_slots_fire_once_in_two_minutes_witness:
  "scheduleCheck Original (7, 0) (clockAt 0 25200000) initialWater
       (Some ((initialSoil 0)\<lparr>currentMoisture := Fin 30\<rparr>)) =
     (Some Irrigated, initialWater\<lparr>currentLevel := Number (Fin 65)\<rparr>,
      Some (startIrrigation 25200000 ((initialSoil 0)\<lparr>currentMoisture := Fin 30\<rparr>)))
   \<and> 1000 \<le> stopDelay (irrigationDuration ((initialSoil 0)\<lparr>currentMoisture := Fin 30\<rparr>))
   \<and> run Original 0 \<lparr>soilMoistureSettings = NoItem, irrigationSettings = NoItem\<rparr> 25200000
         [(25200500, SlotCallback (7, 0)), (25260000, SlotCallback (7, 0))]
         (initialWater\<lparr>currentLevel := Number (Fin 65)\<rparr>,
          startIrrigation 25200000 ((initialSoil 0)\<lparr>currentMoisture := Fin 30\<rparr>)) =
       Some (initialWater\<lparr>currentLevel := Number (Fin 65)\<rparr>,
             startIrrigation 25200000 ((initialSoil 0)\<lparr>currentMoisture := Fin 30\<rparr>))"
proof -
  let ?s = "(initialSoil 0)\<lparr>currentMoisture := Fin 30\<rparr>"
  let ?sa = "startIrrigation 25200000 ?s"
  let ?wa = "initialWater\<lparr>currentLevel := Number (Fin 65)\<rparr>"
  let ?st = "\<lparr>soilMoistureSettings = NoItem, irrigationSettings = NoItem\<rparr>"
  let ?evs = "[(25200500::int, SlotCallback (7, 0)), (25260000, SlotCallback (7, 0))]"
  have c0: "clockAt 0 25200000 = \<lparr>ms = 25200000, hours = 7, minutes = 0, seconds = 0\<rparr>"
    and c1: "clockAt 0 25200500 = \<lparr>ms = 25200500, hours = 7, minutes = 0, seconds = 0\<rparr>"
    and c2: "clockAt 0 25260000 = \<lparr>ms = 25260000, hours = 7, minutes = 1, seconds = 0\<rparr>"
    by (simp_all add: clockAt_def)
  have h1: "scheduleCheck Original (7, 0) (clockAt 0 25200000) initialWater (Some ?s) =
       (Some Irrigated, ?wa, Some ?sa)"
    unfolding c0
    by (simp add: scheduleCheck_def shouldTriggerIrrigation_def performIrrigation_def
        getCurrentMoistureStatus_def resetInvalidMoisture_def initialWater_def initialSoil_def
        js_defs Let_def)
  have h2: "1000 \<le> stopDelay (irrigationDuration ?s)"
    by (simp add: stopDelay_def initialSoil_def)
  have h3: "\<forall>(t', ev) \<in> set ?evs.
         t' \<le> 25200000 + 120000 \<and> (\<forall>slot'. ev = SlotCallback slot' \<longrightarrow> slot' = (7, 0))"
    by simp
  have irr: "isIrrigating ?sa" "currentMoisture ?sa \<noteq> NaN"
    by (simp_all add: startIrrigation_def initialSoil_def resetInvalidMoisture_def Let_def)
  have k1: "scheduleCheck Original (7, 0) (clockAt 0 25200500) ?wa (Some ?sa) =
       (Some SoilAlreadyWet, ?wa, Some ?sa)"
    unfolding c1 using irr
    by (simp add: scheduleCheck_def shouldTriggerIrrigation_def getCurrentMoistureStatus_def
        resetInvalidMoisture_def initialWater_def js_defs Let_def)
  have k2: "scheduleCheck Original (7, 0) (clockAt 0 25260000) ?wa (Some ?sa) = (None, ?wa, Some ?sa)"
    unfolding c2 by (simp add: scheduleCheck_def)
  have h4: "run Original 0 ?st 25200000 ?evs (?wa, ?sa) = Some (?wa, ?sa)"
    by (simp add: k1 k2)
  show ?thesis
    using h1 h2 h4 same_minute_slots_fire_once_in_two_minutes [OF h1 h2 h3 h4]
    by blast
qed

text \<open>
  With an irrigation of half a second the timer stops it within the second of the
  schedule, and the callback run after that irrigates again: 72, 65, 58 litres.
\<close>

lemma short_irrigation_allows_second_fire:
  "run Original 0 \<lparr>soilMoistureSettings = NoItem, irrigationSettings = NoItem\<rparr> 25200000
     [(25200000, SlotCallback (7, 0)), (25200500, AutoStop), (25200600, SlotCallback (7, 0))]
     (initialWater, (initialSoil 0)\<lparr>currentMoisture := Fin 30, irrigationDuration := Fin (1 / 120)\<rparr>) =
   Some (initialWater\<lparr>currentLevel := Number (Fin 58)\<rparr>,
         startIrrigation 25200600
           ((initialSoil 0)\<lparr>currentMoisture := Fin 30, irrigationDuration := Fin (1 / 120)\<rparr>))"
proof -
  have c: "clockAt 0 25200000 = \<lparr>ms = 25200000, hours = 7, minutes = 0, seconds = 0\<rparr>"
    "clockAt 0 25200600 = \<lparr>ms = 25200600, hours = 7, minutes = 0, seconds = 0\<rparr>"
    by (simp_all add: clockAt_def)
  show ?thesis
    by (simp add: c scheduleCheck_def shouldTriggerIrrigation_def performIrrigation_def
        getCurrentMoistureStatus_def resetInvalidMoisture_def initialWater_def initialSoil_def
        startIrrigation_def stopIrrigation_def stopDue_def stopDelay_def js_defs js_Fin Let_def)
qed

section \<open>Saving and loading the soil settings\<close>

lemma loadSettings_no_saved_item:
  assumes "soilMoistureSettings st = NoItem"
    and "irrigationSettings st = NoItem \<or> (\<exists>p. irrigationSettings st = Obj p)"
  shows "\<exists>s. loadSettings st (initialSoil t0) = Inr s \<and> currentMoisture s = Fin 45"
  using assms
  by (auto simp: loadSettings_def initialSoil_def js_defs split: option.splits)

lemma loadSettings_out_of_range:
  assumes "soilMoistureSettings st = Obj r"
    and "validNumber (saved_currentMoisture r)"
    and "js_lt (toNumber (saved_currentMoisture r)) (Fin 0)
         \<or> js_gt (toNumber (saved_currentMoisture r)) (Fin 100)"
    and "irrigationSettings st = NoItem \<or> (\<exists>p. irrigationSettings st = Obj p)"
  shows "\<exists>s. loadSettings st (initialSoil t0) = Inr s \<and> currentMoisture s = Fin 45"
  using assms
  by (auto simp: loadSettings_def split: option.splits)

text \<open>
  What the startup does for a stored soil-moisture item whose moisture is not valid (the
  item does not parse, or the field is not a number, is NaN, or is outside \<open>[0, 100]\<close>):
  when the item \<^verbatim>\<open>irrigationSettings\<close> is missing or is an object, the manager starts
  with the default of 45 percent.
\<close>

lemma corrupted_moisture_loads_default:
  assumes "soilMoistureSettings st = Unparsable \<or> soilMoistureSettings st = JNull
      \<or> (\<exists>r. soilMoistureSettings st = Obj r
             \<and> (\<not> validNumber (saved_currentMoisture r)
                  \<or> js_lt (toNumber (saved_currentMoisture r)) (Fin 0)
                  \<or> js_gt (toNumber (saved_currentMoisture r)) (Fin 100)))"
    and "irrigationSettings st = NoItem \<or> (\<exists>p. irrigationSettings st = Obj p)"
  shows "\<exists>s st'. startup t0 st = Inr (s, st') \<and> currentMoisture s = Fin 45"
proof -
  show ?thesis
  proof (cases "\<exists>r. soilMoistureSettings st = Obj r \<and> validNumber (saved_currentMoisture r)")
    case True
    then obtain r where r: "soilMoistureSettings st = Obj r" "validNumber (saved_currentMoisture r)"
      by blast
    with assms(1) have range: "js_lt (toNumber (saved_currentMoisture r)) (Fin 0)
         \<or> js_gt (toNumber (saved_currentMoisture r)) (Fin 100)"
      by auto
    from r have "clearCorrupted st = st" by (simp add: clearCorrupted_def)
    with loadSettings_out_of_range[OF r range assms(2), of t0] show ?thesis
      by (auto simp: startup_def)
  next
    case False
    with assms(1) have removed: "soilMoistureSettings (clearCorrupted st) = NoItem"
      by (auto simp: clearCorrupted_def)
    have "irrigationSettings (clearCorrupted st) = irrigationSettings st"
      by (simp add: clearCorrupted_def split: item.splits)
    with assms(2) loadSettings_no_saved_item[OF removed, of t0] show ?thesis
      by (auto simp: startup_def)
  qed
qed

lemma startup_keeps_valid_moisture:
  assumes "soilMoistureSettings st = Obj r" and "saved_currentMoisture r = Number (Fin a)"
    and "0 \<le> a" and "a \<le> 100"
    and "irrigationSettings st = NoItem"
  shows "\<exists>s. startup t0 st = Inr (s, st) \<and> currentMoisture s = Fin a"
  using assms
  by (auto simp: startup_def clearCorrupted_def loadSettings_def js_defs)

text \<open>The round trip of a NaN moisture through \<^verbatim>\<open>saveSettings\<close> and the startup.\<close>

lemma NaN_moisture_round_trip:
  "(\<exists>r. soilMoistureSettings (saveSettings ((initialSoil 0)\<lparr>currentMoisture := NaN\<rparr>)
            \<lparr>soilMoistureSettings = NoItem, irrigationSettings = NoItem\<rparr>) = Obj r
        \<and> \<not> validNumber (saved_currentMoisture r))
   \<and> irrigationSettings (saveSettings ((initialSoil 0)\<lparr>currentMoisture := NaN\<rparr>)
            \<lparr>soilMoistureSettings = NoItem, irrigationSettings = NoItem\<rparr>) = NoItem
   \<and> (case startup 7 (saveSettings ((initialSoil 0)\<lparr>currentMoisture := NaN\<rparr>)
            \<lparr>soilMoistureSettings = NoItem, irrigationSettings = NoItem\<rparr>) of
         Inr (s, st') \<Rightarrow> currentMoisture s = Fin 45
       | Inl e \<Rightarrow> False)"
proof -
  let ?st = "saveSettings ((initialSoil 0)\<lparr>currentMoisture := NaN\<rparr>)
            \<lparr>soilMoistureSettings = NoItem, irrigationSettings = NoItem\<rparr>"
  have h1: "\<exists>r. soilMoistureSettings ?st = Obj r \<and> \<not> validNumber (saved_currentMoisture r)"
    by (simp add: saveSettings_def stringify_def jsonNull_def)
  then have h1': "soilMoistureSettings ?st = Unparsable \<or> soilMoistureSettings ?st = JNull
      \<or> (\<exists>r. soilMoistureSettings ?st = Obj r
             \<and> (\<not> validNumber (saved_currentMoisture r)
                  \<or> js_lt (toNumber (saved_currentMoisture r)) (Fin 0)
                  \<or> js_gt (toNumber (saved_currentMoisture r)) (Fin 100)))"
    by blast
  have h2: "irrigationSettings ?st = NoItem"
    by (simp add: saveSettings_def)
  then have h2': "irrigationSettings ?st = NoItem \<or> (\<exists>p. irrigationSettings ?st = Obj p)"
    by blast
  show ?thesis
    using h1 h2 corrupted_moisture_loads_default [OF h1' h2', of 7] by auto
qed

text \<open>
  C9. The claim: a stored soil-moisture record whose moisture is not valid is replaced by
  the default and loading never crashes. \<^verbatim>\<open>loadSettings\<close> also parses the item
  \<^verbatim>\<open>irrigationSettings\<close>, outside any \<^verbatim>\<open>try\<close>: with a stored moisture that is the
  string \<^verbatim>\<open>'NaN'\<close> and an item \<^verbatim>\<open>irrigationSettings\<close> that does not parse, the handler
  removes the soil item and then the constructor throws a \<^verbatim>\<open>SyntaxError\<close>, so that no
  manager is made.
\<close>

theorem startup_throws_on_unparsable_irrigationSettings:
  "startup 0
     \<lparr>soilMoistureSettings =
        Obj \<lparr>saved_currentMoisture = Other NaN,
             saved_irrigationDuration = Number (Fin 15),
             saved_weather = Some ''cerah'',
             saved_isIrrigating = False,
             saved_scheduledIrrigations = Some [Some ''07:00'', Some ''16:00'']\<rparr>,
      irrigationSettings = Unparsable\<rparr>
   = Inl SyntaxError"
  by (simp add: startup_def clearCorrupted_def loadSettings_def initialSoil_def)

text \<open>
  C10, as amended. \<^verbatim>\<open>saveSettings\<close> writes \<^verbatim>\<open>JSON.stringify(this.settings)\<close>, the
  settings as they are in memory: the validated copy is never written, so a default is
  never put in place of the moisture on saving. A finite moisture, in range or not, is
  stored as it is; NaN is stored as \<^verbatim>\<open>null\<close>, not as 45.
\<close>

theorem saveSettings_writes_raw_settings:
  "saveSettings s st = st\<lparr>soilMoistureSettings := Obj (stringify s)\<rparr>
   \<and> saved_currentMoisture (stringify s) = stringifyNumber (currentMoisture s)
   \<and> stringifyNumber (Fin a) = Number (Fin a)
   \<and> stringifyNumber NaN = jsonNull
   \<and> jsonNull \<noteq> Number (Fin 45)"
  by (simp add: saveSettings_def stringify_def jsonNull_def)

text \<open>
  C10. The claim: a NaN moisture in memory is written to the store unmodified.
  Counterexample: saving the initial settings with the moisture NaN stores \<^verbatim>\<open>null\<close> in
  the field, which is not the number NaN.
\<close>

theorem saveSettings_writes_NaN_as_null:
  "soilMoistureSettings (saveSettings ((initialSoil 0)\<lparr>currentMoisture := NaN\<rparr>)
       \<lparr>soilMoistureSettings = NoItem, irrigationSettings = NoItem\<rparr>) =
     Obj \<lparr>saved_currentMoisture = jsonNull,
          saved_irrigationDuration = Number (Fin 15),
          saved_weather = Some ''cerah'',
          saved_isIrrigating = False,
          saved_scheduledIrrigations = Some [Some ''07:00'', Some ''16:00'']\<rparr>
   \<and> jsonNull \<noteq> Number NaN"
  by (simp add: saveSettings_def stringify_def initialSoil_def jsonNull_def)

end
